theory Spec2Isabelle
  imports Complex_Main "HOL-Library.Char_ord" "HOL-Library.List_Lexorder"
begin

section \<open>Python strings, slices and lists\<close>

text \<open>
  A Python \<open>str\<close> is modelled as a HOL \<open>string\<close>: one \<open>char\<close> per code point, which
  covers the code points 0..255. Python integers are \<open>int\<close>, Python floats are idealised
  as \<open>real\<close> (every float of the evaluation script is a quotient of two small counts or
  a clock difference).
\<close>

definition py_isspace :: "char \<Rightarrow> bool" where
  \<comment> \<open>\<open>str.isspace\<close> on the code points below 256\<close>
  "py_isspace c = (let n = (of_char c :: nat) in
     (9 \<le> n \<and> n \<le> 13) \<or> (28 \<le> n \<and> n \<le> 32) \<or> n = 133 \<or> n = 160)"

definition py_strip :: "string \<Rightarrow> string" where
  "py_strip s = rev (dropWhile py_isspace (rev (dropWhile py_isspace s)))"

definition py_lower_char :: "char \<Rightarrow> char" where
  \<comment> \<open>\<open>str.lower\<close> on the code points below 256: A-Z and the accented capitals\<close>
  "py_lower_char c = (let n = (of_char c :: nat) in
     if (65 \<le> n \<and> n \<le> 90) \<or> (192 \<le> n \<and> n \<le> 222 \<and> n \<noteq> 215)
     then char_of (n + 32) else c)"

definition py_lower :: "string \<Rightarrow> string" where
  "py_lower s = map py_lower_char s"

definition py_clip :: "int \<Rightarrow> int \<Rightarrow> nat" where
  \<comment> \<open>a slice bound against a sequence of length \<open>n\<close>: negative bounds count from the end\<close>
  "py_clip n i = nat (if i < 0 then max 0 (n + i) else min i n)"

definition py_slice :: "'a list \<Rightarrow> int \<Rightarrow> int \<Rightarrow> 'a list" where
  \<comment> \<open>\<open>xs[i:j]\<close>\<close>
  "py_slice xs i j =
     (let n = int (length xs); lo = py_clip n i; hi = py_clip n j
      in take (hi - lo) (drop lo xs))"

definition py_upto :: "'a list \<Rightarrow> int \<Rightarrow> 'a list" where
  \<comment> \<open>\<open>xs[:k]\<close>\<close>
  "py_upto xs k = take (py_clip (int (length xs)) k) xs"

fun py_join :: "string \<Rightarrow> string list \<Rightarrow> string" where
  "py_join sep [] = []"
| "py_join sep [x] = x"
| "py_join sep (x # y # r) = x @ sep @ py_join sep (y # r)"

fun is_prefix :: "'a list \<Rightarrow> 'a list \<Rightarrow> bool" where
  "is_prefix [] ys = True"
| "is_prefix (x # xs) [] = False"
| "is_prefix (x # xs) (y # ys) = (x = y \<and> is_prefix xs ys)"

fun py_contains :: "'a list \<Rightarrow> 'a list \<Rightarrow> bool" where
  \<comment> \<open>\<open>sub in s\<close> on strings: \<open>sub\<close> occurs as a contiguous piece of \<open>s\<close>\<close>
  "py_contains sub [] = (sub = [])"
| "py_contains sub (y # ys) = (is_prefix sub (y # ys) \<or> py_contains sub ys)"

definition dict_fromkeys :: "'a list \<Rightarrow> 'a list" where
  \<comment> \<open>\<open>list(dict.fromkeys(xs))\<close>: a key is inserted at its first occurrence only\<close>
  "dict_fromkeys xs = foldl (\<lambda>keys x. if x \<in> set keys then keys else keys @ [x]) [] xs"

definition py_index :: "'a \<Rightarrow> 'a list \<Rightarrow> nat" where
  \<comment> \<open>\<open>xs.index(x)\<close>, called only where \<open>x in xs\<close> has been checked\<close>
  "py_index x xs = length (takeWhile (\<lambda>y. y \<noteq> x) xs)"

text \<open>
  Python's \<open>round(x, nd)\<close> acts on the binary float: the real \<open>x\<close> is first taken to the
  nearest IEEE double (53-bit significand, ties to even, exponents of the normal and
  subnormal range), and the exact value of that double is rounded to \<open>nd\<close> decimals, ties
  to even. The result is the decimal that the returned float prints as.
\<close>

definition pow2 :: "int \<Rightarrow> real" where
  "pow2 e = (if 0 \<le> e then 2 ^ nat e else 1 / 2 ^ nat (- e))"

fun exp_up :: "nat \<Rightarrow> real \<Rightarrow> int \<Rightarrow> int" where
  \<comment> \<open>the binary exponent of \<open>x \<ge> 1\<close>, at most 1023\<close>
  "exp_up 0 x e = e"
| "exp_up (Suc n) x e = (if x < 2 then e else exp_up n (x / 2) (e + 1))"

fun exp_down :: "nat \<Rightarrow> real \<Rightarrow> int \<Rightarrow> int" where
  \<comment> \<open>the binary exponent of \<open>0 < x < 1\<close>, at least -1022 (the subnormal exponent)\<close>
  "exp_down 0 x e = e"
| "exp_down (Suc n) x e = (if 1 \<le> x then e else exp_down n (x * 2) (e - 1))"

definition binade :: "real \<Rightarrow> int" where
  "binade x = (if 1 \<le> x then exp_up 1023 x 0 else exp_down 1022 x 0)"

definition round_half_even :: "real \<Rightarrow> int" where
  "round_half_even y =
     (let f = \<lfloor>y\<rfloor>; d = y - of_int f
      in if d < 1 / 2 then f else if 1 / 2 < d then f + 1
         else if even f then f else f + 1)"

definition to_double :: "real \<Rightarrow> real" where
  "to_double x =
     (if x = 0 then 0
      else let ulp = pow2 (binade \<bar>x\<bar> - 52)
           in of_int (round_half_even (x / ulp)) * ulp)"

definition py_round :: "nat \<Rightarrow> real \<Rightarrow> real" where
  \<comment> \<open>\<open>round(x, nd)\<close>\<close>
  "py_round nd x = of_int (round_half_even (to_double x * 10 ^ nd)) / 10 ^ nd"

section \<open>The chunker (scripts/ingest\_data.py)\<close>

text \<open>
  The \<open>while\<close> loop of \<open>split_text\<close>. The loop may run forever, so it lives in the
  option monad: \<open>None\<close> is "does not return".
\<close>

partial_function (option) split_loop ::
  "string \<Rightarrow> int \<Rightarrow> int \<Rightarrow> int \<Rightarrow> string list \<Rightarrow> string list option" where
  "split_loop text chunk_size overlap start chunks =
     (if start < int (length text) then
        (let end = min (start + chunk_size) (int (length text));
             chunks' = chunks @ [py_slice text start end]
         in if end = int (length text) then Some chunks'
            else split_loop text chunk_size overlap (max 0 (end - overlap)) chunks')
      else Some chunks)"

declare split_loop.simps [code]

definition split_text :: "string \<Rightarrow> int \<Rightarrow> int \<Rightarrow> string list option" where
  "split_text text chunk_size overlap =
     map_option (filter (\<lambda>chunk. py_strip chunk \<noteq> []))
       (split_loop (py_strip text) chunk_size overlap 0 [])"

text \<open>
  Concatenation with overlap: the first chunk, then every later chunk without its first
  \<open>ov\<close> characters. Consecutive chunks share \<open>ov\<close> characters when the last \<open>ov\<close>
  characters of each chunk are the first \<open>ov\<close> characters of the next.
\<close>

fun join_overlap :: "nat \<Rightarrow> 'a list list \<Rightarrow> 'a list" where
  "join_overlap ov [] = []"
| "join_overlap ov (c # cs) = c @ concat (map (drop ov) cs)"

fun shares_overlap :: "nat \<Rightarrow> 'a list list \<Rightarrow> bool" where
  "shares_overlap ov (x # y # r) =
     (ov \<le> length x \<and> ov \<le> length y \<and> drop (length x - ov) x = take ov y
      \<and> shares_overlap ov (y # r))"
| "shares_overlap ov _ = True"

text \<open>The loop invariant and the postcondition of the window loop.\<close>

definition windows_inv :: "string \<Rightarrow> int \<Rightarrow> int \<Rightarrow> int \<Rightarrow> string list \<Rightarrow> bool" where
  "windows_inv t cs ov start chunks =
     (if chunks = [] then start = 0 \<and> t \<noteq> []
      else 0 \<le> start \<and> start + ov < int (length t)
         \<and> join_overlap (nat ov) chunks = take (nat (start + ov)) t
         \<and> nat ov \<le> length (last chunks)
         \<and> drop (length (last chunks) - nat ov) (last chunks) = take (nat ov) (drop (nat start) t)
         \<and> (\<forall>w \<in> set chunks. int (length w) \<le> cs)
         \<and> shares_overlap (nat ov) chunks)"

definition windows_post :: "string \<Rightarrow> int \<Rightarrow> int \<Rightarrow> string list \<Rightarrow> bool" where
  "windows_post t cs ov ws =
     (join_overlap (nat ov) ws = t \<and> (\<forall>w \<in> set ws. int (length w) \<le> cs)
      \<and> shares_overlap (nat ov) ws)"

section \<open>Collaborators: providers, vector store, clock\<close>

datatype error =
    FileNotFoundError
  | ConfigurationError
  | ProviderError
  | HTTPException nat

type_synonym embedding = "real list"

record chunk =
  source :: string
  chunk_text :: string
  distance :: "real option"

record message =
  role :: string
  content :: string

text \<open>
  The external calls made by the code, in the order they are made. The model appends an
  entry for each call it makes, so that "no call is made" is a statement about this log.
\<close>

datatype call =
    EmbeddingsCreate string
  | QueryDocumentChunks embedding int
  | ChatCompletionsCreate "message list"
  | AddMessage string string string string "string option" "string list"

text \<open>
  The collaborators, over an arbitrary world \<open>'w\<close> that each call may change. A provider
  call that raises returns \<open>Inl\<close>. \<open>store_get_user_by_id\<close> and \<open>store_get_chat\<close> return the
  \<open>id\<close> of the user and the \<open>user_id\<close> of the chat, the only fields the code reads.
\<close>

record 'w backend =
  openai_api_key :: string
  rag_top_k :: int
  embeddings_create :: "string \<Rightarrow> 'w \<Rightarrow> (error + embedding) \<times> 'w"
  query_document_chunks :: "embedding \<Rightarrow> int \<Rightarrow> 'w \<Rightarrow> (error + chunk list) \<times> 'w"
  chat_completions_create :: "message list \<Rightarrow> 'w \<Rightarrow> (error + string option) \<times> 'w"
  perf_counter :: "'w \<Rightarrow> real \<times> 'w"
  utc_now_iso :: "'w \<Rightarrow> string \<times> 'w"
  prompt_templates :: "string \<Rightarrow> string option"
  store_get_user_by_id :: "string \<Rightarrow> 'w \<Rightarrow> string option"
  store_get_chat :: "string \<Rightarrow> 'w \<Rightarrow> string option"
  store_add_message ::
    "string \<Rightarrow> string \<Rightarrow> string \<Rightarrow> string \<Rightarrow> string option \<Rightarrow> string list \<Rightarrow> 'w \<Rightarrow> 'w"
  store_list_messages :: "string \<Rightarrow> 'w \<Rightarrow> message list"

record 'w state =
  world :: 'w
  calls :: "call list"

definition read_clock :: "'w backend \<Rightarrow> 'w state \<Rightarrow> real \<times> 'w state" where
  \<comment> \<open>\<open>time.perf_counter()\<close>\<close>
  "read_clock b s = (let (t, w) = perf_counter b (world s) in (t, s\<lparr>world := w\<rparr>))"

definition get_prompt_template :: "'w backend \<Rightarrow> string option \<Rightarrow> string option" where
  \<comment> \<open>\<open>store.get_prompt_template\<close>; the result is the \<open>template\<close> field of the dict\<close>
  "get_prompt_template b template_id =
     (case template_id of None \<Rightarrow> None
      | Some tid \<Rightarrow> if tid = [] then None else prompt_templates b tid)"

section \<open>The retrieval and generation pipeline (app/rag.py)\<close>

definition embed_text ::
  "'w backend \<Rightarrow> string \<Rightarrow> 'w state \<Rightarrow> (error + embedding) \<times> 'w state" where
  "embed_text b text s =
     (let (r, w) = embeddings_create b text (world s)
      in (r, s\<lparr>world := w, calls := calls s @ [EmbeddingsCreate text]\<rparr>))"

definition find_relevant_chunks ::
  "'w backend \<Rightarrow> embedding \<Rightarrow> 'w state \<Rightarrow> (error + chunk list) \<times> 'w state" where
  "find_relevant_chunks b query_embedding s =
     (let (r, w) = query_document_chunks b query_embedding (rag_top_k b) (world s)
      in (r, s\<lparr>world := w,
                calls := calls s @ [QueryDocumentChunks query_embedding (rag_top_k b)]\<rparr>))"

definition system_prompt_base :: string where
  "system_prompt_base =
     ''You are a professional call-center support chatbot. '' @
     ''You must answer strictly and only from the provided PDF context snippets. '' @
     ''If the answer is missing in context, reply exactly: '' @
     [CHR 0x27] @ ''I can only answer from the provided PDF documents.'' @ [CHR 0x27]"

definition generate_answer ::
  "'w backend \<Rightarrow> string \<Rightarrow> chunk list \<Rightarrow> message list \<Rightarrow> string option \<Rightarrow> 'w state
     \<Rightarrow> (error + string) \<times> 'w state" where
  "generate_answer b user_message context_chunks history prompt_template s =
     (let nl = [CHR 0x0A];
          context = py_join (nl @ nl)
            (map (\<lambda>c. ''Source: '' @ source c @ nl @ chunk_text c) context_chunks);
          system_prompt =
            (case prompt_template of
               None \<Rightarrow> system_prompt_base
             | Some t \<Rightarrow> if t = [] then system_prompt_base
                         else system_prompt_base @ nl @ nl @ ''Prompt template:'' @ nl @ t);
          messages =
            [\<lparr>role = ''system'', content = system_prompt\<rparr>]
            @ map (\<lambda>msg. \<lparr>role = role msg, content = content msg\<rparr>) history
            @ [\<lparr>role = ''user'',
                content = ''Context:'' @ nl
                  @ (if context \<noteq> [] then context else ''No relevant context found.'')
                  @ nl @ nl
                  @ ''Important: answer only from context sourced from PDF documents.''
                  @ nl @ nl @ ''Customer question:'' @ nl @ user_message\<rparr>];
          (r, w) = chat_completions_create b messages (world s);
          s' = s\<lparr>world := w, calls := calls s @ [ChatCompletionsCreate messages]\<rparr>
      in case r of
           Inl e \<Rightarrow> (Inl e, s')
         | Inr None \<Rightarrow> (Inr ''I could not generate a response.'', s')
         | Inr (Some text) \<Rightarrow>
             (Inr (if text = [] then ''I could not generate a response.'' else text), s'))"

section \<open>The evaluation engine (scripts/evaluate\_rag.py)\<close>

definition FALLBACK_RESPONSE :: string where
  "FALLBACK_RESPONSE = ''I can only answer from the provided PDF documents.''"

definition is_alnum :: "char \<Rightarrow> bool" where
  \<comment> \<open>the character class \<open>[a-zA-Z0-9]\<close>\<close>
  "is_alnum c = (let n = (of_char c :: nat) in
     (97 \<le> n \<and> n \<le> 122) \<or> (65 \<le> n \<and> n \<le> 90) \<or> (48 \<le> n \<and> n \<le> 57))"

fun findall_alnum :: "string \<Rightarrow> string \<Rightarrow> string list" where
  \<comment> \<open>\<open>re.findall(r"[a-zA-Z0-9]+", s)\<close>: the maximal runs, left to right; \<open>cur\<close> is the
     run being read\<close>
  "findall_alnum cur [] = (if cur = [] then [] else [cur])"
| "findall_alnum cur (c # cs) =
     (if is_alnum c then findall_alnum (cur @ [c]) cs
      else (if cur = [] then [] else [cur]) @ findall_alnum [] cs)"


definition tokenize :: "string \<Rightarrow> string set" where
  "tokenize text = set (findall_alnum [] (py_lower text))"

definition safe_mean :: "real list \<Rightarrow> real" where
  "safe_mean values = (if values \<noteq> [] then sum_list values / real (length values) else 0)"

definition p95 :: "real list \<Rightarrow> real" where
  "p95 values =
     (if values = [] then 0
      else let sorted_values = sort values;
               index = max 0 (min (int (length sorted_values) - 1)
                                  (\<lceil>(95 / 100) * real (length sorted_values)\<rceil> - 1))
           in sorted_values ! nat index)"

record metric_entry =
  metric_key :: string
  metric_label :: string
  metric_value :: real
  unit :: string
  category :: string

definition metric :: "string \<Rightarrow> string \<Rightarrow> real \<Rightarrow> string \<Rightarrow> string \<Rightarrow> metric_entry" where
  "metric key label val u cat =
     \<lparr>metric_key = key, metric_label = label, metric_value = val, unit = u, category = cat\<rparr>"

record gt_row =
  row_id :: "string option"
  row_question :: "string option"
  row_expected_source :: "string option"
  row_expected_answer_keywords :: "string list"

record eval_record =
  rec_id :: "string option"
  question :: string
  expected_source :: "string option"
  retrieved_sources :: "string list"
  top_source :: "string option"
  source_rank :: "nat option"
  hit_at_1 :: nat
  hit_at_3 :: nat
  hit_at_4 :: nat
  answer :: string
  answer_non_empty :: nat
  is_refusal :: nat
  is_grounded :: nat
  answer_context_overlap :: real
  expected_keyword_coverage :: real
  retrieval_latency_ms :: real
  generation_latency_ms :: real
  total_latency_ms :: real
  context_chars :: nat
  answer_chars :: nat

text \<open>The lists the loop appends to.\<close>

record accum =
  acc_per_question :: "eval_record list"
  retrieval_latencies :: "real list"
  generation_latencies :: "real list"
  total_latencies :: "real list"
  reciprocal_ranks :: "real list"
  precision_scores :: "real list"
  answer_context_overlaps :: "real list"
  expected_keyword_coverages :: "real list"

definition empty_accum :: accum where
  "empty_accum = \<lparr>acc_per_question = [], retrieval_latencies = [], generation_latencies = [],
     total_latencies = [], reciprocal_ranks = [], precision_scores = [],
     answer_context_overlaps = [], expected_keyword_coverages = []\<rparr>"

text \<open>The scores of one case, each named after the local variable it computes.\<close>

definition py_truthy :: "string option \<Rightarrow> bool" where
  \<comment> \<open>\<open>if expected_source\<close>: neither \<open>None\<close> nor the empty string\<close>
  "py_truthy x = (case x of None \<Rightarrow> False | Some v \<Rightarrow> v \<noteq> [])"

definition in_sources :: "string option \<Rightarrow> string list \<Rightarrow> bool" where
  \<comment> \<open>\<open>expected_source in xs\<close> for a list of strings\<close>
  "in_sources x xs = (case x of None \<Rightarrow> False | Some v \<Rightarrow> v \<in> set xs)"

definition top_source_of :: "string list \<Rightarrow> string option" where
  "top_source_of unique_sources = (case unique_sources of [] \<Rightarrow> None | x # _ \<Rightarrow> Some x)"

definition hit_at_1_of :: "string option \<Rightarrow> string list \<Rightarrow> nat" where
  "hit_at_1_of es unique_sources =
     (if py_truthy es then (if top_source_of unique_sources = es then 1 else 0) else 0)"

definition hit_at_3_of :: "string option \<Rightarrow> string list \<Rightarrow> nat" where
  "hit_at_3_of es unique_sources =
     (if py_truthy es then (if in_sources es (py_upto unique_sources 3) then 1 else 0) else 0)"

definition hit_at_4_of :: "string option \<Rightarrow> string list \<Rightarrow> nat" where
  "hit_at_4_of es unique_sources =
     (if py_truthy es then (if in_sources es (py_upto unique_sources 4) then 1 else 0) else 0)"

definition rank_of :: "int \<Rightarrow> string option \<Rightarrow> string list \<Rightarrow> nat option" where
  "rank_of top_k es unique_sources =
     (if py_truthy es \<and> in_sources es (py_upto unique_sources top_k)
      then Some (py_index (the es) (py_upto unique_sources top_k) + 1) else None)"

definition reciprocal_rank_of :: "int \<Rightarrow> string option \<Rightarrow> string list \<Rightarrow> real" where
  "reciprocal_rank_of top_k es unique_sources =
     (case rank_of top_k es unique_sources of Some rank \<Rightarrow> 1 / real rank | None \<Rightarrow> 0)"

definition precision_at_k_of :: "int \<Rightarrow> string option \<Rightarrow> string list \<Rightarrow> real" where
  "precision_at_k_of top_k es unique_sources =
     (if in_sources es (py_upto unique_sources top_k) then 1 else 0)
       / real_of_int (max 1 (min top_k (int (length unique_sources))))"

definition answer_context_overlap_of :: "string \<Rightarrow> string \<Rightarrow> real" where
  "answer_context_overlap_of ans context_text =
     (let answer_tokens = tokenize ans; context_tokens = tokenize context_text
      in if answer_tokens \<noteq> {}
         then real (card (answer_tokens \<inter> context_tokens)) / real (card answer_tokens)
         else 0)"

definition expected_keyword_coverage_of :: "string \<Rightarrow> string list \<Rightarrow> real" where
  "expected_keyword_coverage_of ans expected_keywords =
     (let answer_tokens = tokenize ans; expected_tokens = set expected_keywords
      in if expected_tokens \<noteq> {}
         then real (card (answer_tokens \<inter> expected_tokens)) / real (card expected_tokens)
         else 0)"

definition grounded_of :: "string \<Rightarrow> string \<Rightarrow> nat" where
  "grounded_of ans context_text =
     (if py_strip ans \<noteq> []
      then (if 15 / 100 \<le> answer_context_overlap_of ans context_text then 1 else 0) else 0)"

definition refused_of :: "string \<Rightarrow> nat" where
  "refused_of ans = (if py_contains (py_lower FALLBACK_RESPONSE) (py_lower ans) then 1 else 0)"

definition answer_non_empty_of :: "string \<Rightarrow> nat" where
  "answer_non_empty_of ans = (if py_strip ans \<noteq> [] then 1 else 0)"

text \<open>
  The scoring that follows retrieval and generation (lines 84-165): pure in the retrieved
  chunks, the answer and the three latencies.
\<close>

definition score_case ::
  "int \<Rightarrow> gt_row \<Rightarrow> string \<Rightarrow> chunk list \<Rightarrow> string \<Rightarrow> real \<Rightarrow> real \<Rightarrow> real \<Rightarrow> accum \<Rightarrow> accum" where
  "score_case top_k row q retrieved_chunks ans retrieval_ms generation_ms total_ms acc =
     (let es = row_expected_source row;
          expected_keywords = map py_lower (row_expected_answer_keywords row);
          retrieved = map source retrieved_chunks;
          unique_sources = dict_fromkeys retrieved;
          context_text = py_join [CHR 0x0A, CHR 0x0A] (map chunk_text retrieved_chunks);
          overlap = answer_context_overlap_of ans context_text;
          coverage = expected_keyword_coverage_of ans expected_keywords
      in \<lparr>acc_per_question = acc_per_question acc @
            [\<lparr>rec_id = row_id row,
              question = q,
              expected_source = es,
              retrieved_sources = unique_sources,
              top_source = top_source_of unique_sources,
              source_rank = rank_of top_k es unique_sources,
              hit_at_1 = hit_at_1_of es unique_sources,
              hit_at_3 = hit_at_3_of es unique_sources,
              hit_at_4 = hit_at_4_of es unique_sources,
              answer = ans,
              answer_non_empty = answer_non_empty_of ans,
              is_refusal = refused_of ans,
              is_grounded = grounded_of ans context_text,
              answer_context_overlap = py_round 4 overlap,
              expected_keyword_coverage = py_round 4 coverage,
              retrieval_latency_ms = py_round 2 retrieval_ms,
              generation_latency_ms = py_round 2 generation_ms,
              total_latency_ms = py_round 2 total_ms,
              context_chars = length context_text,
              answer_chars = length ans\<rparr>],
          retrieval_latencies = retrieval_latencies acc @ [retrieval_ms],
          generation_latencies = generation_latencies acc @ [generation_ms],
          total_latencies = total_latencies acc @ [total_ms],
          reciprocal_ranks = reciprocal_ranks acc @ [reciprocal_rank_of top_k es unique_sources],
          precision_scores = precision_scores acc @ [precision_at_k_of top_k es unique_sources],
          answer_context_overlaps = answer_context_overlaps acc @ [overlap],
          expected_keyword_coverages = expected_keyword_coverages acc @ [coverage]\<rparr>)"

text \<open>
  One iteration of the \<open>for row in ground_truth\<close> loop. Nothing in the loop catches an
  exception, so a failing provider call ends the iteration with \<open>Inl\<close>.
\<close>

definition eval_case ::
  "'w backend \<Rightarrow> int \<Rightarrow> string option \<Rightarrow> gt_row \<Rightarrow> accum \<Rightarrow> 'w state
     \<Rightarrow> (error + accum) \<times> 'w state" where
  "eval_case b top_k prompt_template row acc s0 =
     (let q = py_strip (case row_question row of None \<Rightarrow> [] | Some x \<Rightarrow> x);
          (total_start, s1) = read_clock b s0;
          (retrieval_start, s2) = read_clock b s1
      in case embed_text b q s2 of
           (Inl e, s3) \<Rightarrow> (Inl e, s3)
         | (Inr query_embedding, s3) \<Rightarrow>
        (case find_relevant_chunks b query_embedding s3 of
           (Inl e, s4) \<Rightarrow> (Inl e, s4)
         | (Inr retrieved_chunks, s4) \<Rightarrow>
        (let (t1, s5) = read_clock b s4;
             retrieval_ms = (t1 - retrieval_start) * 1000;
             (generation_start, s6) = read_clock b s5
         in case (if retrieved_chunks = [] then (Inr FALLBACK_RESPONSE, s6)
                  else generate_answer b q retrieved_chunks [] prompt_template s6) of
              (Inl e, s7) \<Rightarrow> (Inl e, s7)
            | (Inr ans, s7) \<Rightarrow>
           (let (t2, s8) = read_clock b s7;
                generation_ms = (t2 - generation_start) * 1000;
                (t3, s9) = read_clock b s8;
                total_ms = (t3 - total_start) * 1000
            in (Inr (score_case top_k row q retrieved_chunks ans
                       retrieval_ms generation_ms total_ms acc), s9)))))"

fun eval_loop ::
  "'w backend \<Rightarrow> int \<Rightarrow> string option \<Rightarrow> gt_row list \<Rightarrow> accum \<Rightarrow> 'w state
     \<Rightarrow> (error + accum) \<times> 'w state" where
  "eval_loop b top_k prompt_template [] acc s = (Inr acc, s)"
| "eval_loop b top_k prompt_template (row # rows) acc s =
     (case eval_case b top_k prompt_template row acc s of
        (Inl e, s') \<Rightarrow> (Inl e, s')
      | (Inr acc', s') \<Rightarrow> eval_loop b top_k prompt_template rows acc' s')"

record report =
  generated_at :: string
  ground_truth_path :: string
  prompt_template_id :: string
  top_k :: int
  total_metrics :: nat
  metrics :: "metric_entry list"
  per_question :: "eval_record list"

definition build_metrics :: "accum \<Rightarrow> metric_entry list" where
  "build_metrics acc =
     (let pq = acc_per_question acc;
          total_questions = length pq;
          hit1 = safe_mean (map (\<lambda>r. real (hit_at_1 r)) pq);
          hit3 = safe_mean (map (\<lambda>r. real (hit_at_3 r)) pq);
          hit4 = safe_mean (map (\<lambda>r. real (hit_at_4 r)) pq)
      in [metric ''eval_total_questions'' ''Total Questions'' (real total_questions)
            ''count'' ''overview'',
          metric ''eval_hit_rate_at_1'' ''Hit Rate @1'' hit1 ''ratio'' ''retrieval'',
          metric ''eval_hit_rate_at_3'' ''Hit Rate @3'' hit3 ''ratio'' ''retrieval'',
          metric ''eval_hit_rate_at_4'' ''Hit Rate @4'' hit4 ''ratio'' ''retrieval'',
          metric ''eval_mrr_at_4'' ''MRR @4'' (safe_mean (reciprocal_ranks acc))
            ''ratio'' ''retrieval'',
          metric ''eval_exact_source_match_rate'' ''Exact Source Match'' hit1
            ''ratio'' ''retrieval'',
          metric ''eval_source_precision_at_4'' ''Source Precision @4''
            (safe_mean (precision_scores acc)) ''ratio'' ''retrieval'',
          metric ''eval_source_recall_at_4'' ''Source Recall @4'' hit4 ''ratio'' ''retrieval'',
          metric ''eval_avg_retrieval_latency_ms'' ''Avg Retrieval Latency''
            (safe_mean (retrieval_latencies acc)) ''ms'' ''latency'',
          metric ''eval_p95_retrieval_latency_ms'' ''P95 Retrieval Latency''
            (p95 (retrieval_latencies acc)) ''ms'' ''latency'',
          metric ''eval_avg_generation_latency_ms'' ''Avg Generation Latency''
            (safe_mean (generation_latencies acc)) ''ms'' ''latency'',
          metric ''eval_p95_generation_latency_ms'' ''P95 Generation Latency''
            (p95 (generation_latencies acc)) ''ms'' ''latency'',
          metric ''eval_avg_total_latency_ms'' ''Avg Total Latency''
            (safe_mean (total_latencies acc)) ''ms'' ''latency'',
          metric ''eval_answer_non_empty_rate'' ''Answer Non-empty Rate''
            (safe_mean (map (\<lambda>r. real (answer_non_empty r)) pq)) ''ratio'' ''generation'',
          metric ''eval_refusal_rate'' ''Refusal Rate''
            (safe_mean (map (\<lambda>r. real (is_refusal r)) pq)) ''ratio'' ''generation'',
          metric ''eval_grounded_answer_rate'' ''Grounded Answer Rate''
            (safe_mean (map (\<lambda>r. real (is_grounded r)) pq)) ''ratio'' ''generation'',
          metric ''eval_avg_answer_context_overlap'' ''Avg Answer-Context Overlap''
            (safe_mean (answer_context_overlaps acc)) ''ratio'' ''generation'',
          metric ''eval_avg_expected_keyword_coverage'' ''Avg Expected Keyword Coverage''
            (safe_mean (expected_keyword_coverages acc)) ''ratio'' ''generation'',
          metric ''eval_avg_context_chars'' ''Avg Context Chars''
            (safe_mean (map (\<lambda>r. real (context_chars r)) pq)) ''count'' ''context'',
          metric ''eval_avg_answer_chars'' ''Avg Answer Chars''
            (safe_mean (map (\<lambda>r. real (answer_chars r)) pq)) ''count'' ''context''])"

text \<open>
  \<open>evaluate_and_save\<close>. The ground-truth file is \<open>None\<close> when it does not exist. The
  bootstrap of the store (seeding the templates, ingesting an empty collection) and the
  write of the JSON file are outside the model: the result is the report that is dumped
  and returned.
\<close>

definition evaluate_and_save ::
  "'w backend \<Rightarrow> gt_row list option \<Rightarrow> string \<Rightarrow> int \<Rightarrow> string \<Rightarrow> 'w state
     \<Rightarrow> (error + report) \<times> 'w state" where
  "evaluate_and_save b ground_truth gt_path k template_id s =
     (case ground_truth of
        None \<Rightarrow> (Inl FileNotFoundError, s)
      | Some rows \<Rightarrow>
          if openai_api_key b = [] then (Inl ConfigurationError, s)
          else
            (case eval_loop b k (get_prompt_template b (Some template_id)) rows empty_accum s of
               (Inl e, s') \<Rightarrow> (Inl e, s')
             | (Inr acc, s') \<Rightarrow>
                 (let ms = build_metrics acc;
                      (now, w) = utc_now_iso b (world s')
                  in (Inr \<lparr>generated_at = now, ground_truth_path = gt_path,
                            prompt_template_id = template_id, top_k = k,
                            total_metrics = length ms, metrics = ms,
                            per_question = acc_per_question acc\<rparr>,
                      s'\<lparr>world := w\<rparr>))))"

section \<open>The interactive pipeline (app/main.py)\<close>

record request =
  session_user_id :: "string option"
  body_message :: "string option"
  body_prompt_template_id :: "string option"

record response =
  user_message_content :: string
  assistant_content :: string
  assistant_sources :: "string list"

definition add_message ::
  "'w backend \<Rightarrow> string \<Rightarrow> string \<Rightarrow> string \<Rightarrow> string \<Rightarrow> string option \<Rightarrow> string list
     \<Rightarrow> 'w state \<Rightarrow> 'w state" where
  "add_message b chat_id user_id r c template_id srcs s =
     s\<lparr>world := store_add_message b chat_id user_id r c template_id srcs (world s),
       calls := calls s @ [AddMessage chat_id user_id r c template_id srcs]\<rparr>"

definition get_current_user :: "'w backend \<Rightarrow> request \<Rightarrow> 'w state \<Rightarrow> error + string" where
  "get_current_user b req s =
     (case session_user_id req of
        None \<Rightarrow> Inl (HTTPException 401)
      | Some user_id \<Rightarrow>
          if user_id = [] then Inl (HTTPException 401)
          else (case store_get_user_by_id b user_id (world s) of
                  None \<Rightarrow> Inl (HTTPException 401)
                | Some user \<Rightarrow> Inr user))"

definition send_message ::
  "'w backend \<Rightarrow> string \<Rightarrow> request \<Rightarrow> 'w state \<Rightarrow> (error + response) \<times> 'w state" where
  "send_message b chat_id req s0 =
     (case get_current_user b req s0 of
        Inl e \<Rightarrow> (Inl e, s0)
      | Inr user \<Rightarrow>
     (let user_message = py_strip (case body_message req of None \<Rightarrow> [] | Some m \<Rightarrow> m);
          tid = py_strip (case body_prompt_template_id req of None \<Rightarrow> [] | Some t \<Rightarrow> t);
          template_id = (if tid = [] then None else Some tid)
      in if user_message = [] then (Inl (HTTPException 400), s0)
         else if openai_api_key b = [] then (Inl (HTTPException 500), s0)
         else if store_get_chat b chat_id (world s0) \<noteq> Some user
           then (Inl (HTTPException 404), s0)
         else
          (let s1 = add_message b chat_id user ''user'' user_message None [] s0;
               prior_messages = store_list_messages b chat_id (world s1);
               history = butlast prior_messages;
               prompt_template = get_prompt_template b template_id
           in case embed_text b user_message s1 of
                (Inl e, s2) \<Rightarrow> (Inl e, s2)
              | (Inr query_embedding, s2) \<Rightarrow>
             (case find_relevant_chunks b query_embedding s2 of
                (Inl e, s3) \<Rightarrow> (Inl e, s3)
              | (Inr context_chunks, s3) \<Rightarrow>
             (case (if context_chunks = []
                    then (Inr ''I can only answer from the provided PDF documents.'', s3)
                    else generate_answer b user_message context_chunks history
                           prompt_template s3) of
                (Inl e, s4) \<Rightarrow> (Inl e, s4)
              | (Inr assistant_text, s4) \<Rightarrow>
                (let sources = sort (remdups (map source context_chunks));
                     s5 = add_message b chat_id user ''assistant'' assistant_text
                            template_id sources s4
                 in (Inr \<lparr>user_message_content = user_message,
                           assistant_content = assistant_text,
                           assistant_sources = sources\<rparr>, s5)))))))"

section \<open>A stub deployment\<close>

text \<open>
  A concrete backend for running the model: the world is a tick counter read by the clock;
  embedding the question \<open>boom\<close> fails; the question \<open>nothing\<close> retrieves no chunk, every
  other question retrieves three chunks from two sources.
\<close>

definition stub_chunks :: "chunk list" where
  "stub_chunks =
     [\<lparr>source = ''faq.pdf'', chunk_text = ''Contact support by email.'', distance = Some 0.1\<rparr>,
      \<lparr>source = ''policy.pdf'', chunk_text = ''Refunds are accepted within 30 days'',
        distance = Some 0.2\<rparr>,
      \<lparr>source = ''faq.pdf'', chunk_text = ''Opening hours are 9 to 5.'', distance = Some 0.3\<rparr>]"

definition stub_backend :: "nat backend" where
  "stub_backend =
     \<lparr>openai_api_key = ''sk-test'',
      rag_top_k = 4,
      embeddings_create =
        (\<lambda>text w. (if text = ''boom'' then Inl ProviderError else Inr [real (length text)], w)),
      query_document_chunks =
        (\<lambda>emb k w. (Inr (if emb = [7] then [] else stub_chunks), w)),
      chat_completions_create =
        (\<lambda>msgs w. (Inr (Some ''Refunds are accepted within 30 days.''), w)),
      perf_counter = (\<lambda>w. (real w / 1000, Suc w)),
      utc_now_iso = (\<lambda>w. (''2026-01-01T00:00:00+00:00'', w)),
      prompt_templates = (\<lambda>tid. if tid = ''persona_professional''
         then Some ''Use a formal and professional call-center tone.'' else None),
      store_get_user_by_id = (\<lambda>uid w. if uid = ''u1'' then Some ''u1'' else None),
      store_get_chat = (\<lambda>cid w. if cid = ''c1'' then Some ''u1'' else None),
      store_add_message = (\<lambda>cid uid r c t srcs w. w),
      store_list_messages = (\<lambda>cid w. [])\<rparr>"

definition stub_state :: "nat state" where
  "stub_state = \<lparr>world = 0, calls = []\<rparr>"

definition stub_row :: "string \<Rightarrow> string \<Rightarrow> gt_row" where
  "stub_row i q = \<lparr>row_id = Some i, row_question = Some q,
     row_expected_source = Some ''policy.pdf'',
     row_expected_answer_keywords = [''30'', ''days'']\<rparr>"

definition stub_rows :: "gt_row list" where
  "stub_rows = [stub_row ''q1'' ''What is the refund window?'', stub_row ''q2'' ''nothing'']"

definition stub_run :: "(error + report) \<times> nat state" where
  "stub_run = evaluate_and_save stub_backend (Some stub_rows) ''eval/ground_truth_rag.json'' 4
     ''persona_professional'' stub_state"

definition stub_rows_failing :: "gt_row list" where
  "stub_rows_failing = [stub_row ''q1'' ''What is the refund window?'', stub_row ''q2'' ''boom'',
     stub_row ''q3'' ''nothing'']"



definition stub_request :: request where
  "stub_request = \<lparr>session_user_id = Some ''u1'', body_message = Some ''nothing'',
     body_prompt_template_id = None\<rparr>"

section \<open>Properties of the chunker\<close>

lemma split_loop_terminates:
  assumes "ov < cs"
  shows "\<exists>y. split_loop text cs ov start chunks = Some y"
proof (induction "nat (int (length text) - start)" arbitrary: start chunks rule: less_induct)
  case less
  show ?case
  proof (cases "start < int (length text)")
    case False
    then show ?thesis by (subst split_loop.simps) simp
  next
    case True
    define e where "e = min (start + cs) (int (length text))"
    show ?thesis
    proof (cases "e = int (length text)")
      case True
      with \<open>start < int (length text)\<close> show ?thesis
        by (subst split_loop.simps) (simp add: e_def Let_def)
    next
      case False
      have "nat (int (length text) - max 0 (e - ov)) < nat (int (length text) - start)"
        using False True assms by (auto simp: e_def min_def max_def split: if_splits)
      from less[OF this] obtain y where
        "split_loop text cs ov (max 0 (e - ov)) (chunks @ [py_slice text start e]) = Some y"
        by blast
      with False True show ?thesis
        by (subst split_loop.simps) (simp add: e_def Let_def)
    qed
  qed
qed

lemma split_loop_short:
  assumes "int (length text) \<le> cs" "0 \<le> start"
  shows "\<exists>y. split_loop text cs ov start chunks = Some y"
  using assms by (subst split_loop.simps) (auto simp: Let_def min_def)

lemma split_loop_stuck_aux:
  assumes "split_loop t cs ov start chunks = Some y"
  shows "\<not> (start = 0 \<and> cs \<le> ov \<and> cs < int (length t) \<and> t \<noteq> [])"
proof (rule split_loop.raw_induct
    [where P = "\<lambda>t cs ov start chunks y.
       \<not> (start = 0 \<and> cs \<le> ov \<and> cs < int (length t) \<and> t \<noteq> [])", OF _ assms])
  fix f :: "string \<Rightarrow> int \<Rightarrow> int \<Rightarrow> int \<Rightarrow> string list \<Rightarrow> string list option"
    and t cs ov start chunks y
  assume IH: "\<And>t cs ov start chunks y. f t cs ov start chunks = Some y \<Longrightarrow>
     \<not> (start = 0 \<and> cs \<le> ov \<and> cs < int (length t) \<and> t \<noteq> [])"
  assume step: "(if start < int (length t) then
        (let end = min (start + cs) (int (length t));
             chunks' = chunks @ [py_slice t start end]
         in if end = int (length t) then Some chunks'
            else f t cs ov (max 0 (end - ov)) chunks')
      else Some chunks) = Some y"
  show "\<not> (start = 0 \<and> cs \<le> ov \<and> cs < int (length t) \<and> t \<noteq> [])"
  proof
    assume bad: "start = 0 \<and> cs \<le> ov \<and> cs < int (length t) \<and> t \<noteq> []"
    then have e: "min (start + cs) (int (length t)) = cs" by simp
    from bad have m: "max 0 (cs - ov) = 0" by simp
    from bad have lt: "start < int (length t)" by simp
    from bad have ne: "cs \<noteq> int (length t)" by simp
    from step lt ne have "f t cs ov 0 (chunks @ [py_slice t start cs]) = Some y"
      by (simp add: e m Let_def)
    from IH[OF this] bad show False by simp
  qed
qed

lemma split_loop_diverges:
  assumes "cs \<le> ov" "cs < int (length text)" "text \<noteq> []"
  shows "split_loop text cs ov 0 chunks = None"
proof (cases "split_loop text cs ov 0 chunks")
  case (Some y)
  from split_loop_stuck_aux[OF this] assms show ?thesis by simp
qed simp

lemma split_text_returns_iff:
  "(\<exists>y. split_text text cs ov = Some y) \<longleftrightarrow>
     (ov < cs \<or> int (length (py_strip text)) \<le> cs \<or> py_strip text = [])"
proof (cases "ov < cs \<or> int (length (py_strip text)) \<le> cs")
  case True
  then have "\<exists>y. split_loop (py_strip text) cs ov 0 [] = Some y"
    using split_loop_terminates[of ov cs] split_loop_short[of "py_strip text" cs 0] by auto
  with True show ?thesis by (auto simp: split_text_def)
next
  case False
  show ?thesis
  proof (cases "py_strip text = []")
    case True
    then show ?thesis by (subst split_text_def, subst split_loop.simps) simp
  next
    case ne: False
    with False have "split_loop (py_strip text) cs ov 0 [] = None"
      by (intro split_loop_diverges) auto
    with False ne show ?thesis by (simp add: split_text_def)
  qed
qed


text \<open>
  Claim C2. \<open>split_text\<close> is claimed to terminate for every text, chunk size and overlap,
  also when the overlap is at least the chunk size. On the two-character text \<open>ab\<close> with
  chunk size 1 and overlap 1 the first window ends before the end of the text and the next
  start is \<open>max(0, 1 - 1) = 0\<close> again: the loop never returns.
\<close>

theorem split_text_overlap_ge_chunk_size_diverges: "split_text ''ab'' 1 1 = None"
proof -
  have s: "py_strip ''ab'' = ''ab''" by code_simp
  have "split_loop ''ab'' 1 1 0 [] = None" by (rule split_loop_diverges) simp_all
  then show ?thesis by (simp add: split_text_def s)
qed



lemma join_overlap_snoc:
  "join_overlap ov (xs @ [c]) = (if xs = [] then c else join_overlap ov xs @ drop ov c)"
  by (cases xs) simp_all

lemma shares_overlap_snoc:
  "shares_overlap ov (xs @ [c]) =
     (shares_overlap ov xs \<and>
      (xs \<noteq> [] \<longrightarrow> ov \<le> length (last xs) \<and> ov \<le> length c
          \<and> drop (length (last xs) - ov) (last xs) = take ov c))"
  by (induction ov xs rule: shares_overlap.induct) auto

lemma py_slice_window:
  assumes "0 \<le> i" "i \<le> j" "j \<le> int (length xs)"
  shows "py_slice xs i j = take (nat j - nat i) (drop (nat i) xs)"
  using assms by (simp add: py_slice_def py_clip_def Let_def min_def)

lemma take_drop_join:
  assumes "a \<le> b" "b \<le> e"
  shows "take b xs @ drop (b - a) (take (e - a) (drop a xs)) = take e xs"
proof -
  have "drop (b - a) (take (e - a) (drop a xs)) = take (e - b) (drop b xs)"
    using assms by (simp add: drop_take)
  moreover have "take b xs @ take (e - b) (drop b xs) = take e xs"
    using assms by (metis le_add_diff_inverse take_add)
  ultimately show ?thesis by simp
qed

lemma windows_step:
  assumes inv: "windows_inv t cs ov start chunks"
    and ov: "0 \<le> ov" "ov < cs"
    and e: "e = min (start + cs) (int (length t))"
    and c: "c = py_slice t start e"
  shows "start < int (length t)"
    and "e = int (length t) \<Longrightarrow> windows_post t cs ov (chunks @ [c])"
    and "e \<noteq> int (length t) \<Longrightarrow> windows_inv t cs ov (max 0 (e - ov)) (chunks @ [c])"
proof -
  have s0: "0 \<le> start" and lt: "start < int (length t)"
    using inv ov by (auto simp: windows_inv_def split: if_splits)
  show "start < int (length t)" by (rule lt)
  have se: "start \<le> e" "e \<le> int (length t)" "e \<le> start + cs"
    using inv ov e lt by (auto simp: windows_inv_def min_def split: if_splits)
  have se2: "start + ov < e" if "chunks \<noteq> [] \<or> e \<noteq> int (length t)"
    using that inv ov e lt by (auto simp: windows_inv_def min_def split: if_splits)
  have cdef: "c = take (nat e - nat start) (drop (nat start) t)"
    unfolding c using s0 se by (intro py_slice_window) auto
  have lenc: "length c = nat e - nat start" using se s0 by (simp add: cdef)
  have lenc_cs: "int (length c) \<le> cs" using se s0 by (simp add: lenc)
  have ovc: "nat ov \<le> length c" if "chunks \<noteq> [] \<or> e \<noteq> int (length t)"
    using se2[OF that] s0 ov by (simp add: lenc)
  have takec: "take (nat ov) c = take (nat ov) (drop (nat start) t)"
    if "chunks \<noteq> [] \<or> e \<noteq> int (length t)"
    using se2[OF that] s0 ov by (simp add: cdef min_def)
  have join: "join_overlap (nat ov) (chunks @ [c]) = take (nat e) t"
  proof (cases "chunks = []")
    case True
    with inv have "start = 0" by (simp add: windows_inv_def)
    with True show ?thesis by (simp add: cdef)
  next
    case False
    with inv have j: "join_overlap (nat ov) chunks = take (nat (start + ov)) t"
      by (simp add: windows_inv_def)
    have "take (nat (start + ov)) t
          @ drop (nat (start + ov) - nat start) (take (nat e - nat start) (drop (nat start) t))
          = take (nat e) t"
      using se2 False s0 ov by (intro take_drop_join) auto
    moreover have "nat (start + ov) - nat start = nat ov" using s0 ov by simp
    ultimately show ?thesis using False by (simp add: join_overlap_snoc j cdef)
  qed
  have all: "\<forall>w \<in> set (chunks @ [c]). int (length w) \<le> cs"
    using inv lenc_cs by (auto simp: windows_inv_def split: if_splits)
  have sh: "shares_overlap (nat ov) (chunks @ [c])"
  proof (cases "chunks = []")
    case True
    then show ?thesis by simp
  next
    case False
    with inv ovc takec show ?thesis
      by (simp add: shares_overlap_snoc windows_inv_def)
  qed
  show "windows_post t cs ov (chunks @ [c])" if "e = int (length t)"
    using that join all sh by (simp add: windows_post_def)
  show "windows_inv t cs ov (max 0 (e - ov)) (chunks @ [c])" if "e \<noteq> int (length t)"
  proof -
    from that se e have e2: "e = start + cs" "e < int (length t)"
      by (auto simp: min_def split: if_splits)
    note ovc = ovc[OF disjI2[OF that]] and se2 = se2[OF disjI2[OF that]]
    have m: "max 0 (e - ov) = e - ov" using e2 s0 ov by simp
    have d: "drop (length c - nat ov) c = take (nat ov) (drop (nat (e - ov)) t)"
    proof -
      have "length c - nat ov = nat (e - ov) - nat start" using e2 s0 ov se2 by (simp add: lenc)
      then have "drop (length c - nat ov) c
          = take (nat e - nat start - (nat (e - ov) - nat start)) (drop (nat (e - ov) - nat start + nat start) t)"
        by (simp add: cdef drop_take)
      moreover have "nat e - nat start - (nat (e - ov) - nat start) = nat ov"
        using e2 s0 ov by simp
      moreover have "nat (e - ov) - nat start + nat start = nat (e - ov)"
        using e2 s0 ov by simp
      ultimately show ?thesis by simp
    qed
    show ?thesis
      unfolding m windows_inv_def using join all sh d ovc e2 s0 ov by simp
  qed
qed


lemma split_loop_windows:
  assumes "split_loop t cs ov start chunks = Some ws"
  shows "0 \<le> ov \<and> ov < cs \<and> windows_inv t cs ov start chunks \<longrightarrow> windows_post t cs ov ws"
proof (rule split_loop.raw_induct
    [where P = "\<lambda>t cs ov start chunks ws.
       0 \<le> ov \<and> ov < cs \<and> windows_inv t cs ov start chunks \<longrightarrow> windows_post t cs ov ws",
     OF _ assms])
  fix f :: "string \<Rightarrow> int \<Rightarrow> int \<Rightarrow> int \<Rightarrow> string list \<Rightarrow> string list option"
    and t cs ov start chunks ws
  assume IH: "\<And>t cs ov start chunks ws. f t cs ov start chunks = Some ws \<Longrightarrow>
     0 \<le> ov \<and> ov < cs \<and> windows_inv t cs ov start chunks \<longrightarrow> windows_post t cs ov ws"
  assume step: "(if start < int (length t) then
        (let end = min (start + cs) (int (length t));
             chunks' = chunks @ [py_slice t start end]
         in if end = int (length t) then Some chunks'
            else f t cs ov (max 0 (end - ov)) chunks')
      else Some chunks) = Some ws"
  show "0 \<le> ov \<and> ov < cs \<and> windows_inv t cs ov start chunks \<longrightarrow> windows_post t cs ov ws"
  proof
    assume pre: "0 \<le> ov \<and> ov < cs \<and> windows_inv t cs ov start chunks"
    define e where "e = min (start + cs) (int (length t))"
    define c where "c = py_slice t start e"
    from pre have inv: "windows_inv t cs ov start chunks" and ov: "0 \<le> ov" "ov < cs"
      by simp_all
    note st = windows_step[OF inv ov e_def c_def]
    show "windows_post t cs ov ws"
    proof (cases "e = int (length t)")
      case True
      have "ws = chunks @ [c]"
        using step st(1) True unfolding c_def e_def by (simp add: Let_def)
      with st(2)[OF True] show ?thesis by simp
    next
      case False
      have "f t cs ov (max 0 (e - ov)) (chunks @ [c]) = Some ws"
        using step st(1) False unfolding c_def e_def
        by (auto simp: Let_def min_def split: if_splits)
      from IH[OF this] st(3)[OF False] ov show ?thesis by simp
    qed
  qed
qed


text \<open>
  Claim C4, as the code has it. For a text that is non-empty after trimming and
  \<open>0 \<le> overlap < chunk_size\<close>, the loop returns its windows \<open>ws\<close> in left-to-right
  order; their concatenation with overlap is the trimmed text, each window has at most
  \<open>chunk_size\<close> characters, and consecutive windows share \<open>overlap\<close> characters.
  \<open>split_text\<close> returns the windows that are not whitespace-only, which are all of them
  when no window is whitespace-only.
\<close>

theorem split_text_windows_reconstruct:
  assumes "0 \<le> overlap" "overlap < chunk_size" "py_strip text \<noteq> []"
  shows "\<exists>ws. split_loop (py_strip text) chunk_size overlap 0 [] = Some ws
     \<and> split_text text chunk_size overlap = Some (filter (\<lambda>chunk. py_strip chunk \<noteq> []) ws)
     \<and> join_overlap (nat overlap) ws = py_strip text
     \<and> (\<forall>w \<in> set ws. int (length w) \<le> chunk_size)
     \<and> shares_overlap (nat overlap) ws
     \<and> ((\<forall>w \<in> set ws. py_strip w \<noteq> []) \<longrightarrow> split_text text chunk_size overlap = Some ws)"
proof -
  from split_loop_terminates[OF assms(2)] obtain ws where
    ws: "split_loop (py_strip text) chunk_size overlap 0 [] = Some ws" by blast
  have "windows_inv (py_strip text) chunk_size overlap 0 []"
    using assms(3) by (simp add: windows_inv_def)
  with split_loop_windows[OF ws] assms have "windows_post (py_strip text) chunk_size overlap ws"
    by simp
  then show ?thesis
    using ws by (auto simp: windows_post_def split_text_def)
qed

theorem split_text_windows_reconstruct_witness:
  "(0::int) \<le> 1 \<and> (1::int) < 4 \<and> py_strip ''  hello world  '' \<noteq> [] \<and>
   split_text ''  hello world  '' 4 1 = Some [''hell'', ''lo w'', ''worl'', ''ld''] \<and>
   join_overlap 1 [''hell'', ''lo w'', ''worl'', ''ld''] = ''hello world''"
proof -
  have s: "py_strip ''  hello world  '' = ''hello world''" by code_simp
  have r: "split_text ''  hello world  '' 4 1 = Some [''hell'', ''lo w'', ''worl'', ''ld'']"
    by code_simp
  have j: "join_overlap 1 [''hell'', ''lo w'', ''worl'', ''ld''] = ''hello world''" by simp
  from split_text_windows_reconstruct[of 1 4 "''  hello world  ''"] s
  obtain ws where "split_text ''  hello world  '' 4 1
      = Some (filter (\<lambda>chunk. py_strip chunk \<noteq> []) ws)" by auto
  with s r j show ?thesis by simp
qed


text \<open>
  Claim C4 as stated fails: a whitespace-only window is dropped from the result, which then
  no longer reconstructs the text (\<open>a b\<close>, chunk size 1, overlap 0), and a negative
  overlap, which is smaller than the chunk size, skips characters (\<open>abcdef\<close>, chunk size 2,
  overlap -1).
\<close>

theorem split_text_filter_breaks_reconstruction:
  "py_strip ''a b'' \<noteq> [] \<and> (0::int) < 1 \<and> split_text ''a b'' 1 0 = Some [''a'', ''b'']
   \<and> join_overlap (nat 0) [''a'', ''b''] \<noteq> py_strip ''a b''
   \<and> py_strip ''abcdef'' \<noteq> [] \<and> (-1::int) < 2 \<and> split_text ''abcdef'' 2 (-1) = Some [''ab'', ''de'']
   \<and> join_overlap (nat (-1)) [''ab'', ''de''] \<noteq> py_strip ''abcdef''"
proof -
  have 1: "py_strip ''a b'' = ''a b''" by code_simp
  have 2: "split_text ''a b'' 1 0 = Some [''a'', ''b'']" by code_simp
  have 3: "py_strip ''abcdef'' = ''abcdef''" by code_simp
  have 4: "split_text ''abcdef'' 2 (-1) = Some [''ab'', ''de'']" by code_simp
  show ?thesis unfolding 1 2 3 4 by simp
qed


section \<open>Aggregation: mean and 95th percentile\<close>

lemma p95_index_bounds:
  assumes "0 < n"
  shows "1 \<le> \<lceil>(95 / 100) * real n\<rceil>" and "\<lceil>(95 / 100) * real n\<rceil> \<le> int n"
proof -
  have "0 < (95 / 100) * real n" using assms by simp
  then show "1 \<le> \<lceil>(95 / 100) * real n\<rceil>" by linarith
  have "(95 / 100) * real n \<le> real_of_int (int n)" by simp
  then show "\<lceil>(95 / 100) * real n\<rceil> \<le> int n" by (rule ceiling_le)
qed

text \<open>
  Claim C8. \<open>_safe_mean\<close> is the arithmetic mean of a non-empty list and 0 for the empty
  list, so the mean of 2 and 4 is 3. \<open>_p95\<close> is 0 for the empty list and otherwise the
  element of the ascending-sorted list at index \<open>ceil(0.95 n) - 1\<close> clamped to
  \<open>[0, n-1]\<close>; the clamp never changes the index, the index is in range and the result is
  an element of the list. For the values 1..20 it is 19.
\<close>

theorem safe_mean_p95_spec:
  "safe_mean [] = 0
   \<and> (values \<noteq> [] \<longrightarrow> safe_mean values = sum_list values / real (length values))
   \<and> safe_mean [2, 4] = 3
   \<and> p95 [] = 0
   \<and> (values \<noteq> [] \<longrightarrow>
        p95 values = sort values !
            nat (max 0 (min (int (length values) - 1) (\<lceil>(95 / 100) * real (length values)\<rceil> - 1)))
        \<and> max 0 (min (int (length values) - 1) (\<lceil>(95 / 100) * real (length values)\<rceil> - 1))
            = \<lceil>(95 / 100) * real (length values)\<rceil> - 1
        \<and> nat (\<lceil>(95 / 100) * real (length values)\<rceil> - 1) < length values
        \<and> p95 values \<in> set values)
   \<and> p95 (map real [1..<21]) = 19"
proof -
  have a: "safe_mean [2, 4] = 3" by (simp add: safe_mean_def)
  have b: "p95 (map real [1..<21]) = 19" by code_simp
  have c: "p95 values = sort values !
            nat (max 0 (min (int (length values) - 1) (\<lceil>(95 / 100) * real (length values)\<rceil> - 1)))
        \<and> max 0 (min (int (length values) - 1) (\<lceil>(95 / 100) * real (length values)\<rceil> - 1))
            = \<lceil>(95 / 100) * real (length values)\<rceil> - 1
        \<and> nat (\<lceil>(95 / 100) * real (length values)\<rceil> - 1) < length values
        \<and> p95 values \<in> set values" if ne: "values \<noteq> []"
  proof -
    from ne have n: "0 < length values" by simp
    note bd = p95_index_bounds[OF n]
    have 1: "p95 values = sort values !
            nat (max 0 (min (int (length values) - 1) (\<lceil>(95 / 100) * real (length values)\<rceil> - 1)))"
      using ne by (simp add: p95_def Let_def)
    have 2: "max 0 (min (int (length values) - 1) (\<lceil>(95 / 100) * real (length values)\<rceil> - 1))
            = \<lceil>(95 / 100) * real (length values)\<rceil> - 1"
      using bd by linarith
    have 3: "nat (\<lceil>(95 / 100) * real (length values)\<rceil> - 1) < length values"
      using bd n by linarith
    have "sort values ! nat (\<lceil>(95 / 100) * real (length values)\<rceil> - 1) \<in> set (sort values)"
      using 3 by (intro nth_mem) simp
    then have 4: "p95 values \<in> set values" unfolding 1 2 by simp
    from 1 2 3 4 show ?thesis by blast
  qed
  have e1: "safe_mean [] = 0" by (simp add: safe_mean_def)
  have e2: "values \<noteq> [] \<longrightarrow> safe_mean values = sum_list values / real (length values)"
    by (simp add: safe_mean_def)
  have e4: "p95 [] = 0" by (simp add: p95_def)
  from e1 e2 a e4 c b show ?thesis by blast
qed

theorem safe_mean_p95_spec_witness:
  "safe_mean [1, 2, 6] = 3 \<and> p95 [5, 1, 3] = 5"
proof -
  have "p95 [5, 1, 3] = sort [5, 1, 3] ! nat (\<lceil>(95 / 100) * real (length [5, 1, 3 :: real])\<rceil> - 1)"
    using safe_mean_p95_spec[of "[5, 1, 3]"] by simp
  moreover have "\<lceil>(95 / 100) * real (length [5, 1, 3 :: real])\<rceil> = 3" by (simp add: ceiling_eq_iff)
  ultimately have "p95 [5, 1, 3] = 5" by simp
  moreover have "safe_mean [1, 2, 6] = 3" using safe_mean_p95_spec[of "[1, 2, 6]"] by simp
  ultimately show ?thesis by simp
qed

section \<open>The evaluation loop and its report\<close>

lemma score_case_per_question:
  "\<exists>r. acc_per_question (score_case k row q chunks ans rms gms tms acc) = acc_per_question acc @ [r]
     \<and> expected_source r = row_expected_source row
     \<and> retrieved_sources r = dict_fromkeys (map source chunks)"
  by (simp add: score_case_def Let_def)

lemma score_case_precision_scores:
  "precision_scores (score_case k row q chunks ans rms gms tms acc) =
     precision_scores acc @
       [precision_at_k_of k (row_expected_source row) (dict_fromkeys (map source chunks))]"
  by (simp add: score_case_def Let_def)

lemma eval_case_Inr:
  assumes "eval_case b k t row acc s = (Inr acc', s')"
  shows "\<exists>q chunks ans rms gms tms. acc' = score_case k row q chunks ans rms gms tms acc"
  using assms unfolding eval_case_def Let_def
  by (auto split: prod.splits sum.splits if_splits) blast+


lemma eval_loop_length:
  assumes "eval_loop b k t rows acc s = (Inr acc', s')"
  shows "length (acc_per_question acc') = length (acc_per_question acc) + length rows"
  using assms
proof (induction rows arbitrary: acc s)
  case Nil
  then show ?case by simp
next
  case (Cons row rows)
  from Cons.prems(1) obtain a s1 where
    c: "eval_case b k t row acc s = (Inr a, s1)" and l: "eval_loop b k t rows a s1 = (Inr acc', s')"
    by (auto split: prod.splits sum.splits)
  from eval_case_Inr[OF c] obtain q chunks ans rms gms tms where
    "a = score_case k row q chunks ans rms gms tms acc" by blast
  then have "length (acc_per_question a) = Suc (length (acc_per_question acc))"
    using score_case_per_question[of k row q chunks ans rms gms tms acc] by auto
  with Cons.IH[OF l] show ?case by simp
qed

lemma evaluate_and_save_Inr:
  assumes "evaluate_and_save b gt path k tid s = (Inr rep, s')"
  shows "\<exists>rows acc s1. gt = Some rows \<and> openai_api_key b \<noteq> []
     \<and> eval_loop b k (get_prompt_template b (Some tid)) rows empty_accum s = (Inr acc, s1)
     \<and> metrics rep = build_metrics acc \<and> total_metrics rep = length (build_metrics acc)
     \<and> per_question rep = acc_per_question acc \<and> top_k rep = k"
  using assms unfolding evaluate_and_save_def Let_def
  by (auto split: option.splits if_splits prod.splits sum.splits)

lemma build_metrics_keys:
  "map metric_key (build_metrics acc) =
     [''eval_total_questions'', ''eval_hit_rate_at_1'', ''eval_hit_rate_at_3'',
      ''eval_hit_rate_at_4'', ''eval_mrr_at_4'', ''eval_exact_source_match_rate'',
      ''eval_source_precision_at_4'', ''eval_source_recall_at_4'',
      ''eval_avg_retrieval_latency_ms'', ''eval_p95_retrieval_latency_ms'',
      ''eval_avg_generation_latency_ms'', ''eval_p95_generation_latency_ms'',
      ''eval_avg_total_latency_ms'', ''eval_answer_non_empty_rate'', ''eval_refusal_rate'',
      ''eval_grounded_answer_rate'', ''eval_avg_answer_context_overlap'',
      ''eval_avg_expected_keyword_coverage'', ''eval_avg_context_chars'',
      ''eval_avg_answer_chars'']"
  by (simp add: build_metrics_def Let_def metric_def)

lemma build_metrics_units:
  "map unit (build_metrics acc) =
     [''count'', ''ratio'', ''ratio'', ''ratio'', ''ratio'', ''ratio'', ''ratio'', ''ratio'',
      ''ms'', ''ms'', ''ms'', ''ms'', ''ms'', ''ratio'', ''ratio'', ''ratio'', ''ratio'',
      ''ratio'', ''count'', ''count'']"
  by (simp add: build_metrics_def Let_def metric_def)

lemma build_metrics_categories:
  "map category (build_metrics acc) =
     [''overview'', ''retrieval'', ''retrieval'', ''retrieval'', ''retrieval'', ''retrieval'',
      ''retrieval'', ''retrieval'', ''latency'', ''latency'', ''latency'', ''latency'',
      ''latency'', ''generation'', ''generation'', ''generation'', ''generation'',
      ''generation'', ''context'', ''context'']"
  by (simp add: build_metrics_def Let_def metric_def)

lemma build_metrics_length: "length (build_metrics acc) = 20"
  using arg_cong[OF build_metrics_keys, of length acc] by simp



lemma stub_run_returns: "\<exists>rep s'. stub_run = (Inr rep, s')"
proof -
  have h: "(case fst stub_run of Inl _ \<Rightarrow> False | Inr _ \<Rightarrow> True)" by code_simp
  obtain a st where ab: "stub_run = (a, st)" by (cases stub_run)
  from h obtain rep where "a = Inr rep" unfolding ab by (cases a) simp_all
  with ab show ?thesis by blast
qed

text \<open>
  Claim C9. A report returned by \<open>evaluate_and_save\<close> has exactly 20 metrics, with the
  fixed keys in the fixed order, every unit among count, ratio and ms, every category among
  overview, retrieval, latency, generation and context, and \<open>total_metrics = 20\<close>.
\<close>

theorem report_has_twenty_metrics:
  assumes "evaluate_and_save b gt path k tid s = (Inr rep, s')"
  shows "length (metrics rep) = 20 \<and> total_metrics rep = 20
     \<and> map metric_key (metrics rep) =
       [''eval_total_questions'', ''eval_hit_rate_at_1'', ''eval_hit_rate_at_3'',
        ''eval_hit_rate_at_4'', ''eval_mrr_at_4'', ''eval_exact_source_match_rate'',
        ''eval_source_precision_at_4'', ''eval_source_recall_at_4'',
        ''eval_avg_retrieval_latency_ms'', ''eval_p95_retrieval_latency_ms'',
        ''eval_avg_generation_latency_ms'', ''eval_p95_generation_latency_ms'',
        ''eval_avg_total_latency_ms'', ''eval_answer_non_empty_rate'', ''eval_refusal_rate'',
        ''eval_grounded_answer_rate'', ''eval_avg_answer_context_overlap'',
        ''eval_avg_expected_keyword_coverage'', ''eval_avg_context_chars'',
        ''eval_avg_answer_chars'']
     \<and> (\<forall>m \<in> set (metrics rep). unit m \<in> {''count'', ''ratio'', ''ms''}
           \<and> category m \<in> {''overview'', ''retrieval'', ''latency'', ''generation'', ''context''})"
proof -
  from evaluate_and_save_Inr[OF assms] obtain acc where
    m: "metrics rep = build_metrics acc" and t: "total_metrics rep = length (build_metrics acc)"
    by blast
  have u: "unit x \<in> {''count'', ''ratio'', ''ms''}" if "x \<in> set (build_metrics acc)" for x
  proof -
    from that have "unit x \<in> set (map unit (build_metrics acc))" by simp
    then show ?thesis unfolding build_metrics_units by auto
  qed
  have c: "category x \<in> {''overview'', ''retrieval'', ''latency'', ''generation'', ''context''}"
    if "x \<in> set (build_metrics acc)" for x
  proof -
    from that have "category x \<in> set (map category (build_metrics acc))" by simp
    then show ?thesis unfolding build_metrics_categories by auto
  qed
  show ?thesis
    unfolding m t build_metrics_length build_metrics_keys using u c by blast
qed

theorem report_has_twenty_metrics_witness:
  "total_metrics (projr (fst stub_run)) = 20
   \<and> metric_key (hd (metrics (projr (fst stub_run)))) = ''eval_total_questions''"
proof -
  from stub_run_returns obtain rep s' where r: "stub_run = (Inr rep, s')" by blast
  from report_has_twenty_metrics[OF r[unfolded stub_run_def]]
  have "total_metrics rep = 20" and "map metric_key (metrics rep) ! 0 = ''eval_total_questions''"
    and "length (metrics rep) = 20"
    by simp_all
  then show ?thesis unfolding r by (cases "metrics rep") simp_all
qed










lemma eval_loop_append:
  "eval_loop b k t (pre @ rest) acc s =
     (case eval_loop b k t pre acc s of
        (Inl e, s') \<Rightarrow> (Inl e, s')
      | (Inr a, s') \<Rightarrow> eval_loop b k t rest a s')"
  by (induction pre arbitrary: acc s) (auto split: prod.splits sum.splits)

lemma eval_case_embed_fails:
  assumes "read_clock b s0 = (t0, s1)" "read_clock b s1 = (t1, s2)"
    and "embed_text b (py_strip (case row_question row of None \<Rightarrow> [] | Some x \<Rightarrow> x)) s2
           = (Inl e, s3)"
  shows "eval_case b k tmpl row acc s0 = (Inl e, s3)"
  using assms by (simp add: eval_case_def Let_def)

lemma eval_case_generate_fails:
  assumes "read_clock b s0 = (t0, s1)" "read_clock b s1 = (t1, s2)"
    and "embed_text b (py_strip (case row_question row of None \<Rightarrow> [] | Some x \<Rightarrow> x)) s2
           = (Inr emb, s3)"
    and "find_relevant_chunks b emb s3 = (Inr chunks, s4)" "chunks \<noteq> []"
    and "read_clock b s4 = (t2, s5)" "read_clock b s5 = (t3, s6)"
    and "generate_answer b (py_strip (case row_question row of None \<Rightarrow> [] | Some x \<Rightarrow> x))
           chunks [] tmpl s6 = (Inl e, s7)"
  shows "eval_case b k tmpl row acc s0 = (Inl e, s7)"
  using assms by (simp add: eval_case_def Let_def)

text \<open>
  Claim C1, as the code has it. Nothing catches a provider failure: when a report is
  returned it has one record per ground-truth case, but when the cases before some case
  succeed and that case fails, \<open>evaluate_and_save\<close> ends with the error of that case and
  returns no report. A case fails when its embedding call fails, and when its generation
  call fails.
\<close>

theorem evaluation_aborts_on_provider_failure:
  "(\<forall>rep s'. evaluate_and_save b (Some rows) path k tid s = (Inr rep, s')
       \<longrightarrow> length (per_question rep) = length rows)
   \<and> (\<forall>pre row post acc s1 e s2.
         rows = pre @ row # post \<and> openai_api_key b \<noteq> []
         \<and> eval_loop b k (get_prompt_template b (Some tid)) pre empty_accum s = (Inr acc, s1)
         \<and> eval_case b k (get_prompt_template b (Some tid)) row acc s1 = (Inl e, s2)
       \<longrightarrow> evaluate_and_save b (Some rows) path k tid s = (Inl e, s2))
   \<and> (\<forall>row acc tmpl s0 t0 s1 t1 s2 e s3.
         read_clock b s0 = (t0, s1) \<and> read_clock b s1 = (t1, s2)
         \<and> embed_text b (py_strip (case row_question row of None \<Rightarrow> [] | Some x \<Rightarrow> x)) s2
             = (Inl e, s3)
       \<longrightarrow> eval_case b k tmpl row acc s0 = (Inl e, s3))
   \<and> (\<forall>row acc tmpl s0 t0 s1 t1 s2 emb s3 chunks s4 t2 s5 t3 s6 e s7.
         read_clock b s0 = (t0, s1) \<and> read_clock b s1 = (t1, s2)
         \<and> embed_text b (py_strip (case row_question row of None \<Rightarrow> [] | Some x \<Rightarrow> x)) s2
             = (Inr emb, s3)
         \<and> find_relevant_chunks b emb s3 = (Inr chunks, s4) \<and> chunks \<noteq> []
         \<and> read_clock b s4 = (t2, s5) \<and> read_clock b s5 = (t3, s6)
         \<and> generate_answer b (py_strip (case row_question row of None \<Rightarrow> [] | Some x \<Rightarrow> x))
              chunks [] tmpl s6 = (Inl e, s7)
       \<longrightarrow> eval_case b k tmpl row acc s0 = (Inl e, s7))"
proof (intro conjI allI impI)
  fix rep s'
  assume a: "evaluate_and_save b (Some rows) path k tid s = (Inr rep, s')"
  from evaluate_and_save_Inr[OF a] obtain acc s1 where
    l: "eval_loop b k (get_prompt_template b (Some tid)) rows empty_accum s = (Inr acc, s1)"
    and p: "per_question rep = acc_per_question acc"
    by auto
  show "length (per_question rep) = length rows"
    using eval_loop_length[OF l] by (simp add: p empty_accum_def)
next
  fix pre post :: "gt_row list" and row :: gt_row and acc :: accum and s1 e s2
  assume "rows = pre @ row # post \<and> openai_api_key b \<noteq> []
         \<and> eval_loop b k (get_prompt_template b (Some tid)) pre empty_accum s = (Inr acc, s1)
         \<and> eval_case b k (get_prompt_template b (Some tid)) row acc s1 = (Inl e, s2)"
  then show "evaluate_and_save b (Some rows) path k tid s = (Inl e, s2)"
    by (simp add: evaluate_and_save_def eval_loop_append)
next
  fix row :: gt_row and acc :: accum and tmpl s0 t0 s1 t1 s2 e s3
  assume "read_clock b s0 = (t0, s1) \<and> read_clock b s1 = (t1, s2)
         \<and> embed_text b (py_strip (case row_question row of None \<Rightarrow> [] | Some x \<Rightarrow> x)) s2
             = (Inl e, s3)"
  then show "eval_case b k tmpl row acc s0 = (Inl e, s3)"
    using eval_case_embed_fails by blast
next
  fix row :: gt_row and acc :: accum and tmpl s0 t0 s1 t1 s2 emb s3 chunks s4 t2 s5 t3 s6 e s7
  assume "read_clock b s0 = (t0, s1) \<and> read_clock b s1 = (t1, s2)
         \<and> embed_text b (py_strip (case row_question row of None \<Rightarrow> [] | Some x \<Rightarrow> x)) s2
             = (Inr emb, s3)
         \<and> find_relevant_chunks b emb s3 = (Inr chunks, s4) \<and> chunks \<noteq> []
         \<and> read_clock b s4 = (t2, s5) \<and> read_clock b s5 = (t3, s6)
         \<and> generate_answer b (py_strip (case row_question row of None \<Rightarrow> [] | Some x \<Rightarrow> x))
              chunks [] tmpl s6 = (Inl e, s7)"
  then show "eval_case b k tmpl row acc s0 = (Inl e, s7)"
    using eval_case_generate_fails by blast
qed

lemma py_strip_boom: "py_strip ''boom'' = ''boom''"
  by code_simp

lemma stub_boom_fails:
  "eval_case stub_backend k tmpl (stub_row i ''boom'') acc s =
     (Inl ProviderError,
      s\<lparr>world := Suc (Suc (world s)), calls := calls s @ [EmbeddingsCreate ''boom'']\<rparr>)"
  by (simp add: eval_case_def Let_def read_clock_def embed_text_def stub_backend_def
      stub_row_def py_strip_boom)

theorem evaluation_aborts_on_provider_failure_witness:
  "length (per_question (projr (fst stub_run))) = length stub_rows
   \<and> fst (evaluate_and_save stub_backend (Some stub_rows_failing) ''eval/ground_truth_rag.json'' 4
            ''persona_professional'' stub_state) = Inl ProviderError"
proof -
  note th = evaluation_aborts_on_provider_failure
  from stub_run_returns obtain rep s' where r: "stub_run = (Inr rep, s')" by blast
  have 1: "length (per_question rep) = length stub_rows"
    by (rule th[of stub_backend stub_rows "''eval/ground_truth_rag.json''" 4
      "''persona_professional''" stub_state, THEN conjunct1, rule_format,
      OF r[unfolded stub_run_def]])
  have "(case fst (eval_loop stub_backend 4
      (get_prompt_template stub_backend (Some ''persona_professional''))
      [stub_row ''q1'' ''What is the refund window?''] empty_accum stub_state)
      of Inl _ \<Rightarrow> False | Inr _ \<Rightarrow> True)"
    by code_simp
  then obtain acc s1 where l: "eval_loop stub_backend 4
      (get_prompt_template stub_backend (Some ''persona_professional''))
      [stub_row ''q1'' ''What is the refund window?''] empty_accum stub_state = (Inr acc, s1)"
    by (cases "eval_loop stub_backend 4
      (get_prompt_template stub_backend (Some ''persona_professional''))
      [stub_row ''q1'' ''What is the refund window?''] empty_accum stub_state")
      (auto split: sum.splits)
  have k: "openai_api_key stub_backend \<noteq> []" by (simp add: stub_backend_def)
  have d: "stub_rows_failing = [stub_row ''q1'' ''What is the refund window?'']
      @ stub_row ''q2'' ''boom'' # [stub_row ''q3'' ''nothing'']"
    by (simp add: stub_rows_failing_def)
  have h: "stub_rows_failing = [stub_row ''q1'' ''What is the refund window?'']
      @ stub_row ''q2'' ''boom'' # [stub_row ''q3'' ''nothing'']
    \<and> openai_api_key stub_backend \<noteq> []
    \<and> eval_loop stub_backend 4
      (get_prompt_template stub_backend (Some ''persona_professional''))
      [stub_row ''q1'' ''What is the refund window?''] empty_accum stub_state = (Inr acc, s1)
    \<and> eval_case stub_backend 4 (get_prompt_template stub_backend (Some ''persona_professional''))
      (stub_row ''q2'' ''boom'') acc s1
     = (Inl ProviderError,
        s1\<lparr>world := Suc (Suc (world s1)), calls := calls s1 @ [EmbeddingsCreate ''boom'']\<rparr>)"
    by (intro conjI) (rule d k l stub_boom_fails)+
  have "evaluate_and_save stub_backend (Some stub_rows_failing) ''eval/ground_truth_rag.json'' 4
      ''persona_professional'' stub_state
    = (Inl ProviderError,
       s1\<lparr>world := Suc (Suc (world s1)), calls := calls s1 @ [EmbeddingsCreate ''boom'']\<rparr>)"
    by (rule th[of stub_backend stub_rows_failing "''eval/ground_truth_rag.json''" 4
      "''persona_professional''" stub_state, THEN conjunct2, THEN conjunct1, rule_format, OF h])
  with 1 show ?thesis unfolding r by simp
qed

text \<open>
  Claim C1 as stated fails: with three ground-truth cases of which the second has a failing
  embedding call, the run ends with the provider error instead of a report with three
  records.
\<close>

theorem provider_failure_aborts_report:
  "length stub_rows_failing = 3
   \<and> fst (embeddings_create stub_backend ''boom'' 0) = Inl ProviderError
   \<and> fst (evaluate_and_save stub_backend (Some stub_rows_failing) ''eval/ground_truth_rag.json'' 4
            ''persona_professional'' stub_state) = Inl ProviderError"
proof -
  have "fst (evaluate_and_save stub_backend (Some stub_rows_failing) ''eval/ground_truth_rag.json'' 4
            ''persona_professional'' stub_state) = Inl ProviderError"
    by code_simp
  then show ?thesis by (simp add: stub_rows_failing_def stub_backend_def)
qed

section \<open>Scores of one case\<close>










lemma score_case_last_record:
  "last (acc_per_question (score_case k row q chunks ans rms gms tms acc)) =
     \<lparr>rec_id = row_id row,
      question = q,
      expected_source = row_expected_source row,
      retrieved_sources = dict_fromkeys (map source chunks),
      top_source = top_source_of (dict_fromkeys (map source chunks)),
      source_rank = rank_of k (row_expected_source row) (dict_fromkeys (map source chunks)),
      hit_at_1 = hit_at_1_of (row_expected_source row) (dict_fromkeys (map source chunks)),
      hit_at_3 = hit_at_3_of (row_expected_source row) (dict_fromkeys (map source chunks)),
      hit_at_4 = hit_at_4_of (row_expected_source row) (dict_fromkeys (map source chunks)),
      answer = ans,
      answer_non_empty = answer_non_empty_of ans,
      is_refusal = refused_of ans,
      is_grounded = grounded_of ans (py_join [CHR 0x0A, CHR 0x0A] (map chunk_text chunks)),
      answer_context_overlap =
        py_round 4 (answer_context_overlap_of ans (py_join [CHR 0x0A, CHR 0x0A] (map chunk_text chunks))),
      expected_keyword_coverage =
        py_round 4 (expected_keyword_coverage_of ans (map py_lower (row_expected_answer_keywords row))),
      retrieval_latency_ms = py_round 2 rms,
      generation_latency_ms = py_round 2 gms,
      total_latency_ms = py_round 2 tms,
      context_chars = length (py_join [CHR 0x0A, CHR 0x0A] (map chunk_text chunks)),
      answer_chars = length ans\<rparr>"
  by (simp add: score_case_def Let_def)





lemma read_clock_calls: "read_clock b s = (t, s') \<Longrightarrow> calls s' = calls s"
  by (auto simp: read_clock_def split: prod.splits)

lemma embed_text_calls:
  "embed_text b q s = (r, s') \<Longrightarrow> calls s' = calls s @ [EmbeddingsCreate q]"
  by (auto simp: embed_text_def split: prod.splits)

lemma find_relevant_chunks_calls:
  "find_relevant_chunks b emb s = (r, s') \<Longrightarrow>
     calls s' = calls s @ [QueryDocumentChunks emb (rag_top_k b)]"
  by (auto simp: find_relevant_chunks_def split: prod.splits)

lemma eval_case_no_chunks:
  assumes "read_clock b s0 = (t0, s1)" "read_clock b s1 = (t1, s2)"
    and "embed_text b (py_strip (case row_question row of None \<Rightarrow> [] | Some x \<Rightarrow> x)) s2
           = (Inr emb, s3)"
    and "find_relevant_chunks b emb s3 = (Inr [], s4)"
  shows "\<exists>rms gms tms s9.
     eval_case b k tmpl row acc s0 =
       (Inr (score_case k row (py_strip (case row_question row of None \<Rightarrow> [] | Some x \<Rightarrow> x))
               [] FALLBACK_RESPONSE rms gms tms acc), s9)
     \<and> calls s9 = calls s0 @
         [EmbeddingsCreate (py_strip (case row_question row of None \<Rightarrow> [] | Some x \<Rightarrow> x)),
          QueryDocumentChunks emb (rag_top_k b)]"
proof -
  obtain t2 s5 where c5: "read_clock b s4 = (t2, s5)" by (cases "read_clock b s4")
  obtain t3 s6 where c6: "read_clock b s5 = (t3, s6)" by (cases "read_clock b s5")
  obtain t4 s7 where c7: "read_clock b s6 = (t4, s7)" by (cases "read_clock b s6")
  obtain t5 s8 where c8: "read_clock b s7 = (t5, s8)" by (cases "read_clock b s7")
  have e: "eval_case b k tmpl row acc s0 =
       (Inr (score_case k row (py_strip (case row_question row of None \<Rightarrow> [] | Some x \<Rightarrow> x))
               [] FALLBACK_RESPONSE ((t2 - t1) * 1000) ((t4 - t3) * 1000) ((t5 - t0) * 1000) acc), s8)"
    using assms c5 c6 c7 c8 by (simp add: eval_case_def Let_def)
  have "calls s8 = calls s4"
    using read_clock_calls[OF c5] read_clock_calls[OF c6] read_clock_calls[OF c7]
      read_clock_calls[OF c8] by simp
  also have "\<dots> = calls s0 @
         [EmbeddingsCreate (py_strip (case row_question row of None \<Rightarrow> [] | Some x \<Rightarrow> x)),
          QueryDocumentChunks emb (rag_top_k b)]"
    using read_clock_calls[OF assms(1)] read_clock_calls[OF assms(2)]
      embed_text_calls[OF assms(3)] find_relevant_chunks_calls[OF assms(4)] by simp
  finally show ?thesis using e by blast
qed

lemma is_prefix_refl: "is_prefix xs xs"
  by (induction xs) auto

lemma py_contains_refl: "py_contains xs xs"
  by (cases xs) (auto simp: is_prefix_refl)

lemma refused_of_fallback: "refused_of FALLBACK_RESPONSE = 1"
  by (simp add: refused_of_def py_contains_refl)

lemma py_strip_fallback: "py_strip FALLBACK_RESPONSE = FALLBACK_RESPONSE"
  unfolding FALLBACK_RESPONSE_def by code_simp

lemma fallback_nonempty: "FALLBACK_RESPONSE \<noteq> []"
  by (simp add: FALLBACK_RESPONSE_def)

lemma tokenize_empty: "tokenize [] = {}"
  by (simp add: tokenize_def py_lower_def)

lemma py_round_zero: "py_round nd 0 = 0"
  by (simp add: py_round_def to_double_def round_half_even_def)

lemma py_round_decimal_ties:
  "py_round 4 (1 / 160) = 63 / 10000" and "py_round 4 (3 / 160) = 187 / 10000"
  and "py_round 2 (2675 / 1000) = 267 / 100" and "py_round 2 (1 / 8) = 12 / 100"
  by code_simp+

lemma dict_fromkeys_Nil: "dict_fromkeys [] = []"
  by (simp add: dict_fromkeys_def)

lemma send_message_no_chunks:
  assumes "get_current_user b req s0 = Inr user"
    and "um = py_strip (case body_message req of None \<Rightarrow> [] | Some m \<Rightarrow> m)"
    and "tid = py_strip (case body_prompt_template_id req of None \<Rightarrow> [] | Some t \<Rightarrow> t)"
    and "um \<noteq> []" "openai_api_key b \<noteq> []"
    and "store_get_chat b chat_id (world s0) = Some user"
    and "embed_text b um (add_message b chat_id user ''user'' um None [] s0) = (Inr emb, s2)"
    and "find_relevant_chunks b emb s2 = (Inr [], s3)"
  shows "\<exists>s5. send_message b chat_id req s0 =
       (Inr \<lparr>user_message_content = um,
             assistant_content = ''I can only answer from the provided PDF documents.'',
             assistant_sources = []\<rparr>, s5)
     \<and> calls s5 = calls s0 @
         [AddMessage chat_id user ''user'' um None [],
          EmbeddingsCreate um,
          QueryDocumentChunks emb (rag_top_k b),
          AddMessage chat_id user ''assistant''
            ''I can only answer from the provided PDF documents.''
            (if tid = [] then None else Some tid) []]"
proof -
  have c: "calls s3 = calls s0 @ [AddMessage chat_id user ''user'' um None [],
          EmbeddingsCreate um, QueryDocumentChunks emb (rag_top_k b)]"
    using embed_text_calls[OF assms(7)] find_relevant_chunks_calls[OF assms(8)]
    by (simp add: add_message_def)
  show ?thesis
    using assms(1,4,5,6,7,8) c unfolding assms(2,3)
    by (simp add: send_message_def Let_def add_message_def)
qed

text \<open>
  Claim C5. When retrieval returns zero chunks, the evaluation engine completes the case
  with the refusal string as the answer, an empty source list and \<open>is_refusal = 1\<close>, and
  the interactive pipeline returns and stores the refusal string with an empty source
  list; in both, the external calls made are the embedding and the store query (and the
  two message writes of the interactive pipeline), with no call of the generation provider.
\<close>

theorem empty_retrieval_refuses:
  "(\<forall>row acc tmpl k s0 t0 s1 t1 s2 emb s3 s4 q.
       q = py_strip (case row_question row of None \<Rightarrow> [] | Some x \<Rightarrow> x)
       \<and> read_clock b s0 = (t0, s1) \<and> read_clock b s1 = (t1, s2)
       \<and> embed_text b q s2 = (Inr emb, s3)
       \<and> find_relevant_chunks b emb s3 = (Inr [], s4)
     \<longrightarrow> (\<exists>acc' s9 r.
           eval_case b k tmpl row acc s0 = (Inr acc', s9)
         \<and> acc_per_question acc' = acc_per_question acc @ [r]
         \<and> answer r = ''I can only answer from the provided PDF documents.''
         \<and> retrieved_sources r = [] \<and> is_refusal r = 1
         \<and> calls s9 = calls s0 @ [EmbeddingsCreate q, QueryDocumentChunks emb (rag_top_k b)]))
   \<and> (\<forall>chat_id req s0 user um tid emb s2 s3.
       get_current_user b req s0 = Inr user
       \<and> um = py_strip (case body_message req of None \<Rightarrow> [] | Some m \<Rightarrow> m)
       \<and> tid = py_strip (case body_prompt_template_id req of None \<Rightarrow> [] | Some t \<Rightarrow> t)
       \<and> um \<noteq> [] \<and> openai_api_key b \<noteq> []
       \<and> store_get_chat b chat_id (world s0) = Some user
       \<and> embed_text b um (add_message b chat_id user ''user'' um None [] s0) = (Inr emb, s2)
       \<and> find_relevant_chunks b emb s2 = (Inr [], s3)
     \<longrightarrow> (\<exists>s5. send_message b chat_id req s0 =
             (Inr \<lparr>user_message_content = um,
                   assistant_content = ''I can only answer from the provided PDF documents.'',
                   assistant_sources = []\<rparr>, s5)
           \<and> calls s5 = calls s0 @
               [AddMessage chat_id user ''user'' um None [],
                EmbeddingsCreate um,
                QueryDocumentChunks emb (rag_top_k b),
                AddMessage chat_id user ''assistant''
                  ''I can only answer from the provided PDF documents.''
                  (if tid = [] then None else Some tid) []]))"
proof (intro conjI allI impI)
  fix row :: gt_row and acc :: accum and tmpl k s0 t0 s1 t1 s2 emb s3 s4 q
  assume h: "q = py_strip (case row_question row of None \<Rightarrow> [] | Some x \<Rightarrow> x)
       \<and> read_clock b s0 = (t0, s1) \<and> read_clock b s1 = (t1, s2)
       \<and> embed_text b q s2 = (Inr emb, s3)
       \<and> find_relevant_chunks b emb s3 = (Inr [], s4)"
  then have q: "q = py_strip (case row_question row of None \<Rightarrow> [] | Some x \<Rightarrow> x)" by simp
  from h have h1: "read_clock b s0 = (t0, s1)" and h2: "read_clock b s1 = (t1, s2)"
    and h3: "embed_text b (py_strip (case row_question row of None \<Rightarrow> [] | Some x \<Rightarrow> x)) s2
           = (Inr emb, s3)"
    and h4: "find_relevant_chunks b emb s3 = (Inr [], s4)"
    by auto
  have "\<exists>rms gms tms s9.
     eval_case b k tmpl row acc s0 = (Inr (score_case k row q [] FALLBACK_RESPONSE rms gms tms acc), s9)
     \<and> calls s9 = calls s0 @ [EmbeddingsCreate q, QueryDocumentChunks emb (rag_top_k b)]"
    unfolding q by (rule eval_case_no_chunks[OF h1 h2 h3 h4])
  then obtain rms gms tms s9 where
    e: "eval_case b k tmpl row acc s0 =
          (Inr (score_case k row q [] FALLBACK_RESPONSE rms gms tms acc), s9)"
    and c: "calls s9 = calls s0 @ [EmbeddingsCreate q, QueryDocumentChunks emb (rag_top_k b)]"
    by blast
  let ?acc' = "score_case k row q [] FALLBACK_RESPONSE rms gms tms acc"
  have 1: "acc_per_question ?acc' = acc_per_question acc @ [last (acc_per_question ?acc')]"
    using score_case_per_question[of k row q "[]" FALLBACK_RESPONSE rms gms tms acc] by auto
  have 2: "answer (last (acc_per_question ?acc'))
      = ''I can only answer from the provided PDF documents.''"
    unfolding score_case_last_record by (simp add: FALLBACK_RESPONSE_def)
  have 3: "retrieved_sources (last (acc_per_question ?acc')) = []"
    unfolding score_case_last_record by (simp add: dict_fromkeys_Nil)
  have 4: "is_refusal (last (acc_per_question ?acc')) = 1"
    unfolding score_case_last_record by (simp add: refused_of_fallback)
  from e c 1 2 3 4 show "\<exists>acc' s9 r.
           eval_case b k tmpl row acc s0 = (Inr acc', s9)
         \<and> acc_per_question acc' = acc_per_question acc @ [r]
         \<and> answer r = ''I can only answer from the provided PDF documents.''
         \<and> retrieved_sources r = [] \<and> is_refusal r = 1
         \<and> calls s9 = calls s0 @ [EmbeddingsCreate q, QueryDocumentChunks emb (rag_top_k b)]"
    by blast
next
  fix chat_id and req :: request and s0 user um tid emb s2 s3
  assume h: "get_current_user b req s0 = Inr user
       \<and> um = py_strip (case body_message req of None \<Rightarrow> [] | Some m \<Rightarrow> m)
       \<and> tid = py_strip (case body_prompt_template_id req of None \<Rightarrow> [] | Some t \<Rightarrow> t)
       \<and> um \<noteq> [] \<and> openai_api_key b \<noteq> []
       \<and> store_get_chat b chat_id (world s0) = Some user
       \<and> embed_text b um (add_message b chat_id user ''user'' um None [] s0) = (Inr emb, s2)
       \<and> find_relevant_chunks b emb s2 = (Inr [], s3)"
  show "\<exists>s5. send_message b chat_id req s0 =
             (Inr \<lparr>user_message_content = um,
                   assistant_content = ''I can only answer from the provided PDF documents.'',
                   assistant_sources = []\<rparr>, s5)
           \<and> calls s5 = calls s0 @
               [AddMessage chat_id user ''user'' um None [],
                EmbeddingsCreate um,
                QueryDocumentChunks emb (rag_top_k b),
                AddMessage chat_id user ''assistant''
                  ''I can only answer from the provided PDF documents.''
                  (if tid = [] then None else Some tid) []]"
    by (rule send_message_no_chunks[of b req s0 user um tid chat_id emb s2 s3]) (use h in auto)
qed

lemma py_strip_nothing: "py_strip ''nothing'' = ''nothing''"
  by code_simp

lemma py_strip_Nil: "py_strip [] = []"
  by (simp add: py_strip_def)

lemma stub_no_chunks_run:
  "''nothing''
     = py_strip (case row_question (stub_row ''q2'' ''nothing'') of None \<Rightarrow> [] | Some x \<Rightarrow> x)
   \<and> read_clock stub_backend stub_state = (0, \<lparr>world = 1, calls = []\<rparr>)
   \<and> read_clock stub_backend \<lparr>world = 1, calls = []\<rparr> = (1 / 1000, \<lparr>world = 2, calls = []\<rparr>)
   \<and> embed_text stub_backend ''nothing'' \<lparr>world = 2, calls = []\<rparr>
       = (Inr [7], \<lparr>world = 2, calls = [EmbeddingsCreate ''nothing'']\<rparr>)
   \<and> find_relevant_chunks stub_backend [7] \<lparr>world = 2, calls = [EmbeddingsCreate ''nothing'']\<rparr>
       = (Inr [], \<lparr>world = 2, calls = [EmbeddingsCreate ''nothing'', QueryDocumentChunks [7] 4]\<rparr>)"
  by (simp add: stub_row_def py_strip_nothing read_clock_def embed_text_def
      find_relevant_chunks_def stub_backend_def stub_state_def)

lemma stub_no_chunks_send:
  "get_current_user stub_backend stub_request stub_state = Inr ''u1''
   \<and> ''nothing'' = py_strip (case body_message stub_request of None \<Rightarrow> [] | Some m \<Rightarrow> m)
   \<and> [] = py_strip (case body_prompt_template_id stub_request of None \<Rightarrow> [] | Some t \<Rightarrow> t)
   \<and> ''nothing'' \<noteq> [] \<and> openai_api_key stub_backend \<noteq> []
   \<and> store_get_chat stub_backend ''c1'' (world stub_state) = Some ''u1''
   \<and> embed_text stub_backend ''nothing''
        (add_message stub_backend ''c1'' ''u1'' ''user'' ''nothing'' None [] stub_state)
       = (Inr [7], \<lparr>world = 0, calls = [AddMessage ''c1'' ''u1'' ''user'' ''nothing'' None [],
                                        EmbeddingsCreate ''nothing'']\<rparr>)
   \<and> find_relevant_chunks stub_backend [7]
        \<lparr>world = 0, calls = [AddMessage ''c1'' ''u1'' ''user'' ''nothing'' None [],
                             EmbeddingsCreate ''nothing'']\<rparr>
       = (Inr [], \<lparr>world = 0, calls = [AddMessage ''c1'' ''u1'' ''user'' ''nothing'' None [],
                                      EmbeddingsCreate ''nothing'', QueryDocumentChunks [7] 4]\<rparr>)"
  by (simp add: stub_request_def get_current_user_def py_strip_nothing py_strip_Nil
      embed_text_def find_relevant_chunks_def add_message_def stub_backend_def stub_state_def)

theorem empty_retrieval_refuses_witness:
  "(\<exists>acc' s9 r. eval_case stub_backend 4 None (stub_row ''q2'' ''nothing'') empty_accum stub_state
        = (Inr acc', s9)
      \<and> acc_per_question acc' = [r]
      \<and> answer r = ''I can only answer from the provided PDF documents.''
      \<and> calls s9 = [EmbeddingsCreate ''nothing'', QueryDocumentChunks [7] 4])
   \<and> (\<exists>s5. send_message stub_backend ''c1'' stub_request stub_state =
         (Inr \<lparr>user_message_content = ''nothing'',
               assistant_content = ''I can only answer from the provided PDF documents.'',
               assistant_sources = []\<rparr>, s5))"
proof -
  note th = empty_retrieval_refuses[of stub_backend]
  from th[THEN conjunct1, rule_format, OF stub_no_chunks_run,
      of 4 None empty_accum]
  have a: "\<exists>acc' s9 r. eval_case stub_backend 4 None (stub_row ''q2'' ''nothing'') empty_accum stub_state
        = (Inr acc', s9)
      \<and> acc_per_question acc' = [r]
      \<and> answer r = ''I can only answer from the provided PDF documents.''
      \<and> calls s9 = [EmbeddingsCreate ''nothing'', QueryDocumentChunks [7] 4]"
    by (auto simp: empty_accum_def stub_state_def stub_backend_def)
  from th[THEN conjunct2, rule_format, OF stub_no_chunks_send]
  have b: "\<exists>s5. send_message stub_backend ''c1'' stub_request stub_state =
         (Inr \<lparr>user_message_content = ''nothing'',
               assistant_content = ''I can only answer from the provided PDF documents.'',
               assistant_sources = []\<rparr>, s5)"
    by blast
  from a b show ?thesis by blast
qed

text \<open>
  Claim C10. For a case with zero retrieved chunks the record has
  \<open>answer_context_overlap = 0\<close> and \<open>is_grounded = 0\<close>, since the context is empty, while
  \<open>answer_non_empty = 1\<close>.
\<close>

theorem zero_chunks_not_grounded:
  "\<forall>row acc tmpl k s0 t0 s1 t1 s2 emb s3 s4 q.
       q = py_strip (case row_question row of None \<Rightarrow> [] | Some x \<Rightarrow> x)
       \<and> read_clock b s0 = (t0, s1) \<and> read_clock b s1 = (t1, s2)
       \<and> embed_text b q s2 = (Inr emb, s3)
       \<and> find_relevant_chunks b emb s3 = (Inr [], s4)
     \<longrightarrow> (\<exists>acc' s9 r.
           eval_case b k tmpl row acc s0 = (Inr acc', s9)
         \<and> acc_per_question acc' = acc_per_question acc @ [r]
         \<and> answer r = FALLBACK_RESPONSE \<and> context_chars r = 0
         \<and> answer_context_overlap r = 0 \<and> is_grounded r = 0 \<and> answer_non_empty r = 1
         \<and> answer_context_overlaps acc' = answer_context_overlaps acc @ [0])"
proof (intro allI impI)
  fix row :: gt_row and acc :: accum and tmpl k s0 t0 s1 t1 s2 emb s3 s4 q
  assume h: "q = py_strip (case row_question row of None \<Rightarrow> [] | Some x \<Rightarrow> x)
       \<and> read_clock b s0 = (t0, s1) \<and> read_clock b s1 = (t1, s2)
       \<and> embed_text b q s2 = (Inr emb, s3)
       \<and> find_relevant_chunks b emb s3 = (Inr [], s4)"
  then have q: "q = py_strip (case row_question row of None \<Rightarrow> [] | Some x \<Rightarrow> x)" by simp
  from h have h1: "read_clock b s0 = (t0, s1)" and h2: "read_clock b s1 = (t1, s2)"
    and h3: "embed_text b (py_strip (case row_question row of None \<Rightarrow> [] | Some x \<Rightarrow> x)) s2
           = (Inr emb, s3)"
    and h4: "find_relevant_chunks b emb s3 = (Inr [], s4)"
    by auto
  have "\<exists>rms gms tms s9.
     eval_case b k tmpl row acc s0 = (Inr (score_case k row q [] FALLBACK_RESPONSE rms gms tms acc), s9)
     \<and> calls s9 = calls s0 @ [EmbeddingsCreate q, QueryDocumentChunks emb (rag_top_k b)]"
    unfolding q by (rule eval_case_no_chunks[OF h1 h2 h3 h4])
  then obtain rms gms tms s9 where
    e: "eval_case b k tmpl row acc s0 =
          (Inr (score_case k row q [] FALLBACK_RESPONSE rms gms tms acc), s9)"
    by blast
  let ?acc' = "score_case k row q [] FALLBACK_RESPONSE rms gms tms acc"
  have ov: "answer_context_overlap_of FALLBACK_RESPONSE [] = 0"
    by (simp add: answer_context_overlap_of_def Let_def tokenize_empty)
  have 1: "acc_per_question ?acc' = acc_per_question acc @ [last (acc_per_question ?acc')]"
    using score_case_per_question[of k row q "[]" FALLBACK_RESPONSE rms gms tms acc] by auto
  have 2: "answer (last (acc_per_question ?acc')) = FALLBACK_RESPONSE"
    and 3: "context_chars (last (acc_per_question ?acc')) = 0"
    and 4: "answer_context_overlap (last (acc_per_question ?acc')) = 0"
    and 5: "is_grounded (last (acc_per_question ?acc')) = 0"
    and 6: "answer_non_empty (last (acc_per_question ?acc')) = 1"
    unfolding score_case_last_record
    by (simp_all add: ov py_round_zero grounded_of_def answer_non_empty_of_def
        py_strip_fallback fallback_nonempty)
  have 7: "answer_context_overlaps ?acc' = answer_context_overlaps acc @ [0]"
    by (simp add: score_case_def Let_def ov)
  from e 1 2 3 4 5 6 7 show "\<exists>acc' s9 r.
           eval_case b k tmpl row acc s0 = (Inr acc', s9)
         \<and> acc_per_question acc' = acc_per_question acc @ [r]
         \<and> answer r = FALLBACK_RESPONSE \<and> context_chars r = 0
         \<and> answer_context_overlap r = 0 \<and> is_grounded r = 0 \<and> answer_non_empty r = 1
         \<and> answer_context_overlaps acc' = answer_context_overlaps acc @ [0]"
    by blast
qed

theorem zero_chunks_not_grounded_witness:
  "\<exists>acc' s9 r. eval_case stub_backend 4 None (stub_row ''q2'' ''nothing'') empty_accum stub_state
        = (Inr acc', s9)
      \<and> acc_per_question acc' = [r]
      \<and> answer_context_overlap r = 0 \<and> is_grounded r = 0 \<and> answer_non_empty r = 1"
  using zero_chunks_not_grounded[of stub_backend, rule_format, OF stub_no_chunks_run,
      of 4 None empty_accum]
  by (auto simp: empty_accum_def)













end
